theory Spec2Isabelle
  imports Main "HOL-Library.AList" "HOL-Library.Sublist"
begin

section \<open>The initial router state\<close>

text \<open>
  \<^verbatim>\<open>createInitialRouterState\<close> builds one object literal from its parameters. The
  types \<^verbatim>\<open>FlightRouterState\<close>, \<^verbatim>\<open>ReactNode\<close>, \<^verbatim>\<open>Location\<close> and the
  values of the two maps are declared elsewhere and are only passed through, so they are
  type parameters here. A JavaScript \<^verbatim>\<open>Map\<close> is a partial function, \<^verbatim>\<open>new Map()\<close>
  the empty one; \<^verbatim>\<open>location: Location | null\<close> is an option, and so is the cache
  node's \<^verbatim>\<open>data\<close>, which the literal sets to \<^verbatim>\<open>null\<close>.
\<close>

record ('tree, 'node, 'seg, 'loc) InitialRouterStateParameters =
  initialTree :: 'tree
  initialCanonicalUrl :: string
  children :: 'node
  initialParallelRoutes :: "string \<rightharpoonup> 'seg"
  isServer :: bool
  location :: "'loc option"

record ('status, 'data, 'node, 'seg) CacheNode =
  status :: 'status
  data :: "'data option"
  subTreeData :: 'node
  parallelRoutes :: "string \<rightharpoonup> 'seg"

record PushRef =
  pendingPush :: bool
  mpaNavigation :: bool

record FocusAndScrollRef =
  applyFocus :: bool

record ('tree, 'status, 'data, 'node, 'seg, 'entry) RouterState =
  tree :: 'tree
  cache :: "('status, 'data, 'node, 'seg) CacheNode"
  prefetchCache :: "string \<rightharpoonup> 'entry"
  pushRef :: PushRef
  focusAndScrollRef :: FocusAndScrollRef
  canonicalUrl :: string

text \<open>
  The two imports of the file, \<^verbatim>\<open>CacheStates\<close> (of which only the member
  \<^verbatim>\<open>READY\<close> is used) and \<^verbatim>\<open>createHrefFromUrl\<close>, are defined in modules that are
  not part of the sources at hand. They are parameters of the model.
\<close>

record ('status, 'loc) RouterImports =
  CacheStates_READY :: 'status
  createHrefFromUrl :: "'loc \<Rightarrow> string"

definition createInitialRouterState ::
  "('status, 'loc) RouterImports \<Rightarrow>
   ('tree, 'node, 'seg, 'loc) InitialRouterStateParameters \<Rightarrow>
   ('tree, 'status, 'data, 'node, 'seg, 'entry) RouterState" where
  "createInitialRouterState env p =
     \<lparr> tree = initialTree p,
       cache =
         \<lparr> status = CacheStates_READY env,
           data = None,
           subTreeData = children p,
           parallelRoutes = (if isServer p then Map.empty else initialParallelRoutes p) \<rparr>,
       prefetchCache = Map.empty,
       pushRef = \<lparr> pendingPush = False, mpaNavigation = False \<rparr>,
       focusAndScrollRef = \<lparr> applyFocus = False \<rparr>,
       canonicalUrl =
         (case location p of
            Some l \<Rightarrow> createHrefFromUrl env l
          | None \<Rightarrow> initialCanonicalUrl p) \<rparr>"

section \<open>JavaScript values\<close>

text \<open>
  The metadata code works on plain JavaScript data: it tests values for truthiness,
  enumerates the keys of objects, assigns properties by a computed key and copies the
  properties of one object over another. Values are therefore modelled untyped. An object
  is the list of its own enumerable properties in enumeration order; a number enters the
  code only through its truthiness, so integers and \<^verbatim>\<open>NaN\<close> stand for all numbers.
  Function values are kept apart from data (type \<open>jsany\<close> below), and strings are
  lists of 8-bit characters.
\<close>

datatype jsval =
    JUndefined
  | JNull
  | JBool bool
  | JNum int
  | JNaN
  | JStr string
  | JArr "jsval list"
  | JObj "(string \<times> jsval) list"

type_synonym jsobj = "(string \<times> jsval) list"

fun truthy :: "jsval \<Rightarrow> bool" where
  "truthy JUndefined = False"
| "truthy JNull = False"
| "truthy (JBool b) = b"
| "truthy (JNum n) = (n \<noteq> 0)"
| "truthy JNaN = False"
| "truthy (JStr s) = (s \<noteq> [])"
| "truthy (JArr xs) = True"
| "truthy (JObj kvs) = True"

text \<open>The operator \<^verbatim>\<open>a || b\<close>.\<close>

definition jsOr :: "jsval \<Rightarrow> jsval \<Rightarrow> jsval" where
  "jsOr a b = (if truthy a then a else b)"

text \<open>
  Reading \<^verbatim>\<open>obj.k\<close> or \<^verbatim>\<open>obj[k]\<close> yields \<^verbatim>\<open>undefined\<close> for a missing
  property. Writing \<^verbatim>\<open>obj[k] = v\<close> replaces the value of an existing property in
  place and appends a new property at the end of the enumeration order.
\<close>

definition getProp :: "jsobj \<Rightarrow> string \<Rightarrow> jsval" where
  "getProp obj k = (case map_of obj k of None \<Rightarrow> JUndefined | Some v \<Rightarrow> v)"

definition setProp :: "jsobj \<Rightarrow> string \<Rightarrow> jsval \<Rightarrow> jsobj" where
  "setProp obj k v = AList.update k v obj"

text \<open>
  Optional chaining \<^verbatim>\<open>v?.k\<close>, for the property names \<^verbatim>\<open>title\<close> and
  \<^verbatim>\<open>template\<close> the code reads: only an object can have them.
\<close>

fun optChain :: "jsval \<Rightarrow> string \<Rightarrow> jsval" where
  "optChain (JObj obj) k = getProp obj k"
| "optChain v k = JUndefined"

text \<open>The decimal numeral of a natural number, as \<^verbatim>\<open>toString\<close> prints it.\<close>

definition digitChar :: "nat \<Rightarrow> char" where
  "digitChar d = ''0123456789'' ! (d mod 10)"

function decimal :: "nat \<Rightarrow> string" where
  "decimal n = (if n < 10 then [digitChar n] else decimal (n div 10) @ [digitChar n])"
  by pat_completeness auto
termination
  by (relation "measure id") auto

text \<open>
  The own enumerable properties that a spread \<^verbatim>\<open>{...v}\<close> and \<^verbatim>\<open>Object.assign\<close>
  copy from a source: those of an object, the indexed elements of an array, the indexed
  characters of a string, and none for any other value.
\<close>

fun ownProps :: "jsval \<Rightarrow> (string \<times> jsval) list" where
  "ownProps (JObj kvs) = kvs"
| "ownProps (JArr xs) = zip (map decimal [0..<length xs]) xs"
| "ownProps (JStr s) = zip (map decimal [0..<length s]) (map (\<lambda>c. JStr [c]) s)"
| "ownProps v = []"

definition assignProps :: "jsobj \<Rightarrow> jsval \<Rightarrow> jsobj" where
  "assignProps obj src = foldl (\<lambda>acc kv. setProp acc (fst kv) (snd kv)) obj (ownProps src)"

text \<open>
  \<^verbatim>\<open>Object.assign(target, ...sources)\<close> on a fresh target; the object literal
  \<^verbatim>\<open>{...a, ...b}\<close> is \<open>objectAssign [] [a, b]\<close>.
\<close>

definition objectAssign :: "jsobj \<Rightarrow> jsval list \<Rightarrow> jsobj" where
  "objectAssign obj srcs = foldl assignProps obj srcs"

text \<open>
  The list that stands for an object names every property once. The values the code
  receives have this form; it is stated where a property needs it.
\<close>

definition distinctKeys :: "jsval \<Rightarrow> bool" where
  "distinctKeys v = distinct (map fst (ownProps v))"

section \<open>Promises, errors and functions\<close>

text \<open>
  A promise is modelled by the way it settles: it stays pending for ever, it is rejected
  with an error, or it is fulfilled with a value. \<^verbatim>\<open>p.then(f)\<close> for a callback that
  returns a promise is then the bind of this type. The one object that
  \<^verbatim>\<open>accumulateMetadata\<close> mutates is passed along by value: a promise fulfilled with
  that object carries its contents at the moment the promise settles, which is what a
  consumer that awaits the promise can read before the next layer is merged.
\<close>

datatype error =
    ExportsBothError
  | NotAFunction
  | Thrown jsval

datatype 'a promise = Pending | Rejected error | Fulfilled 'a

fun thenP :: "'a promise \<Rightarrow> ('a \<Rightarrow> 'b promise) \<Rightarrow> 'b promise" where
  "thenP Pending f = Pending"
| "thenP (Rejected e) f = Rejected e"
| "thenP (Fulfilled v) f = f v"

text \<open>
  A function value takes its arguments, which are data or the promise of the accumulated
  metadata, and either throws (\<open>Inl\<close>) or returns (\<open>Inr\<close>) a value or a promise of
  one; \<^verbatim>\<open>Promise.resolve\<close> makes no difference between the two, so a returned plain
  value is a fulfilled promise. Calling something that is not a function throws a
  \<^verbatim>\<open>TypeError\<close>.
\<close>

datatype jsarg = ArgVal jsval | ArgPromise "jsobj promise"

type_synonym jsfun = "jsarg list \<Rightarrow> error + jsval promise"

datatype jsany = JData jsval | JFunc jsfun

fun truthyAny :: "jsany \<Rightarrow> bool" where
  "truthyAny (JData v) = truthy v"
| "truthyAny (JFunc f) = True"

fun callAny :: "jsany \<Rightarrow> jsarg list \<Rightarrow> error + jsval promise" where
  "callAny (JFunc f) args = f args"
| "callAny (JData v) args = Inl NotAFunction"

definition argAt :: "jsarg list \<Rightarrow> nat \<Rightarrow> jsarg" where
  "argAt args i = (if i < length args then args ! i else ArgVal JUndefined)"

section \<open>Merging metadata\<close>

text \<open>
  The resolvers that \<^verbatim>\<open>resolve-metadata.ts\<close> imports, and
  \<^verbatim>\<open>createDefaultMetadata\<close>, live in modules outside the sources at hand. They are
  the fields of one record of parameters, each a function on values.
  \<^verbatim>\<open>mergeTitle(obj, template)\<close> updates the object it is handed in place; its field
  maps the properties of that object before the call to those after it.
\<close>

record MetadataImports =
  createDefaultMetadata :: jsobj
  mergeTitle :: "jsobj \<Rightarrow> jsval \<Rightarrow> jsobj"
  resolveAlternates :: "jsval \<Rightarrow> jsval \<Rightarrow> jsval"
  resolveOpenGraph :: "jsval \<Rightarrow> jsval \<Rightarrow> jsval"
  resolveTwitter :: "jsval \<Rightarrow> jsval \<Rightarrow> jsval"
  resolveVerification :: "jsval \<Rightarrow> jsval"
  resolveViewport :: "jsval \<Rightarrow> jsval"
  resolveIcons :: "jsval \<Rightarrow> jsval"
  resolveAppleWebApp :: "jsval \<Rightarrow> jsval"
  resolveAppLinks :: "jsval \<Rightarrow> jsval"
  resolveRobots :: "jsval \<Rightarrow> jsval"
  resolveAsArrayOrUndefined :: "jsval \<Rightarrow> jsval"

record TemplateStrings =
  title :: jsval
  openGraph :: jsval
  twitter :: jsval

text \<open>
  \<^verbatim>\<open>mergeTitle(target.openGraph, ...)\<close> and \<^verbatim>\<open>mergeTitle(target.twitter, ...)\<close>
  update the object stored in the property; by value, the property holds the updated
  object afterwards. A value that is not an object has no properties to update.
\<close>

definition mergeTitleIn :: "MetadataImports \<Rightarrow> jsval \<Rightarrow> jsval \<Rightarrow> jsval" where
  "mergeTitleIn h v template =
     (case v of JObj obj \<Rightarrow> JObj (mergeTitle h obj template) | _ \<Rightarrow> v)"

definition arrayKeys :: "string list" where
  "arrayKeys = [''archives'', ''assets'', ''bookmarks'', ''keywords'', ''authors'']"

definition directKeys :: "string list" where
  "directKeys =
     [''applicationName'', ''description'', ''generator'', ''themeColor'', ''creator'',
      ''publisher'', ''category'', ''classification'', ''referrer'', ''colorScheme'',
      ''itunes'', ''formatDetection'']"

text \<open>The body of the loop of \<^verbatim>\<open>merge\<close>: the \<^verbatim>\<open>switch\<close> on one key of the source.\<close>

definition mergeKey ::
  "MetadataImports \<Rightarrow> jsobj \<Rightarrow> jsval \<Rightarrow> TemplateStrings \<Rightarrow> jsobj \<Rightarrow> string \<Rightarrow> jsobj" where
  "mergeKey h source metadataBase templateStrings target key =
     (if key = ''title'' then
        (if truthy (getProp source ''title'')
         then mergeTitle h (setProp target ''title'' (getProp source ''title''))
                (title templateStrings)
         else target)
      else if key = ''alternates'' then
        setProp target ''alternates''
          (resolveAlternates h (getProp source ''alternates'') metadataBase)
      else if key = ''openGraph'' then
        (let target' = setProp target ''openGraph''
               (resolveOpenGraph h (getProp source ''openGraph'') metadataBase)
         in if truthy (getProp target' ''openGraph'')
            then setProp target' ''openGraph''
                   (mergeTitleIn h (getProp target' ''openGraph'') (openGraph templateStrings))
            else target')
      else if key = ''twitter'' then
        (let target' = setProp target ''twitter''
               (resolveTwitter h (getProp source ''twitter'') metadataBase)
         in if truthy (getProp target' ''twitter'')
            then setProp target' ''twitter''
                   (mergeTitleIn h (getProp target' ''twitter'') (twitter templateStrings))
            else target')
      else if key = ''verification'' then
        setProp target ''verification'' (resolveVerification h (getProp source ''verification''))
      else if key = ''viewport'' then
        setProp target ''viewport'' (resolveViewport h (getProp source ''viewport''))
      else if key = ''icons'' then
        setProp target ''icons'' (resolveIcons h (getProp source ''icons''))
      else if key = ''appleWebApp'' then
        setProp target ''appleWebApp'' (resolveAppleWebApp h (getProp source ''appleWebApp''))
      else if key = ''appLinks'' then
        setProp target ''appLinks'' (resolveAppLinks h (getProp source ''appLinks''))
      else if key = ''robots'' then
        setProp target ''robots'' (resolveRobots h (getProp source ''robots''))
      else if key \<in> set arrayKeys then
        setProp target key (jsOr (resolveAsArrayOrUndefined h (getProp source key)) JNull)
      else if key \<in> set directKeys then
        setProp target key (jsOr (getProp source key) JNull)
      else if key = ''other'' then
        setProp target ''other''
          (JObj (objectAssign [] [getProp target ''other'', getProp source ''other'']))
      else if key = ''metadataBase'' then
        setProp target ''metadataBase'' metadataBase
      else target)"

text \<open>
  \<^verbatim>\<open>for (const key_ in source)\<close> visits the keys of the source in enumeration order.
  JavaScript enumerates keys that are array indices before all others; such keys have no
  case in the \<^verbatim>\<open>switch\<close>, so their place in the order makes no difference to
  the result. The source is never the target, so the keys are fixed when the loop starts.
  The function returns the target as the loop leaves it.
\<close>

definition merge :: "MetadataImports \<Rightarrow> jsobj \<Rightarrow> jsobj \<Rightarrow> TemplateStrings \<Rightarrow> jsobj" where
  "merge h target source templateStrings =
     (let metadataBase = jsOr (getProp source ''metadataBase'') JNull
      in foldl (mergeKey h source metadataBase templateStrings) target (map fst source))"

text \<open>The keys for which the \<^verbatim>\<open>switch\<close> has a case.\<close>

definition knownKeys :: "string list" where
  "knownKeys =
     [''title'', ''alternates'', ''openGraph'', ''twitter'', ''verification'', ''viewport'',
      ''icons'', ''appleWebApp'', ''appLinks'', ''robots''] @ arrayKeys @ directKeys @
     [''other'', ''metadataBase'']"

section \<open>The metadata a module defines\<close>

text \<open>
  A module is read through three of its properties, so it is the list of its exports.
  \<^verbatim>\<open>isClientReference\<close> is imported from a module that is not among the sources and is
  a parameter. The error thrown at line 147 is the constructor \<open>ExportsBothError\<close>;
  its message, which quotes \<^verbatim>\<open>mod.path\<close>, is not modelled. The function is
  \<^verbatim>\<open>async\<close>: a \<^verbatim>\<open>throw\<close> rejects the promise it returns.
\<close>

type_synonym jsmodule = "(string \<times> jsany) list"

definition getExport :: "jsmodule \<Rightarrow> string \<Rightarrow> jsany" where
  "getExport m k = (case map_of m k of None \<Rightarrow> JData JUndefined | Some v \<Rightarrow> v)"

definition getDefinedMetadata :: "(jsmodule \<Rightarrow> bool) \<Rightarrow> jsmodule \<Rightarrow> jsval \<Rightarrow> jsany promise" where
  "getDefinedMetadata isClientReference m props =
     (if isClientReference m then Fulfilled (JData JNull)
      else if truthyAny (getExport m ''metadata'') \<and> truthyAny (getExport m ''generateMetadata'')
      then Rejected ExportsBothError
      else
        (let r = (if truthyAny (getExport m ''generateMetadata'')
                  then JFunc (\<lambda>args. callAny (getExport m ''generateMetadata'')
                                      [ArgVal props, argAt args 0])
                  else getExport m ''metadata'')
         in Fulfilled (if truthyAny r then r else JData JNull)))"

section \<open>Accumulating metadata\<close>

text \<open>
  The callback of the inner \<^verbatim>\<open>then\<close> (lines 218 to 235) receives the exported
  metadata of the layer once that has resolved, merges into the accumulated object and
  returns it. Its two arguments to \<^verbatim>\<open>merge\<close> are named here: the object literal
  \<^verbatim>\<open>{ ...metadata, ...staticFilesMetadata }\<close> and the template strings read from
  the accumulated object.
\<close>

definition layerSource :: "jsval \<Rightarrow> jsval \<Rightarrow> jsobj" where
  "layerSource exportedMetadata staticFilesMetadata =
     (let metadata = jsOr exportedMetadata staticFilesMetadata
      in objectAssign [] [metadata, staticFilesMetadata])"

definition templateStringsOf :: "jsobj \<Rightarrow> TemplateStrings" where
  "templateStringsOf resolved =
     \<lparr> title = jsOr (optChain (getProp resolved ''title'') ''template'') JNull,
       openGraph =
         jsOr (optChain (optChain (getProp resolved ''openGraph'') ''title'') ''template'') JNull,
       twitter =
         jsOr (optChain (optChain (getProp resolved ''twitter'') ''title'') ''template'') JNull \<rparr>"

definition mergeLayer :: "MetadataImports \<Rightarrow> jsval \<Rightarrow> jsobj \<Rightarrow> jsval \<Rightarrow> jsobj" where
  "mergeLayer h staticFilesMetadata resolved exportedMetadata =
     (let metadata = jsOr exportedMetadata staticFilesMetadata
      in if truthy metadata
         then merge h resolved (layerSource exportedMetadata staticFilesMetadata)
                (templateStringsOf resolved)
         else resolved)"

text \<open>
  The argument of \<^verbatim>\<open>Promise.resolve\<close> at lines 212 to 214: an export that is a
  function is called with the parent promise, any other export is taken as it is.
\<close>

definition callExport :: "jsany \<Rightarrow> jsobj promise \<Rightarrow> error + jsval promise" where
  "callExport metadataExport parentPromise =
     (case metadataExport of
        JFunc f \<Rightarrow> f [ArgPromise parentPromise]
      | JData v \<Rightarrow> Inr (Fulfilled v))"

text \<open>The promise that \<^verbatim>\<open>parentPromise.then(...)\<close> at lines 217 to 236 creates.\<close>

definition chainLayer ::
  "MetadataImports \<Rightarrow> jsval \<Rightarrow> jsobj promise \<Rightarrow> jsval promise \<Rightarrow> jsobj promise" where
  "chainLayer h staticFilesMetadata parentPromise layerMetadataPromise =
     thenP parentPromise (\<lambda>resolved.
       thenP layerMetadataPromise (\<lambda>exportedMetadata.
         Fulfilled (mergeLayer h staticFilesMetadata resolved exportedMetadata)))"

text \<open>
  The loop of \<^verbatim>\<open>accumulateMetadata\<close>, with \<^verbatim>\<open>parentPromise\<close> as its state. The
  call of an exported function happens while the loop runs; if it throws, the
  \<^verbatim>\<open>async\<close> function ends there and its promise is rejected. After the last item the
  function awaits the parent promise.
\<close>

fun accumulateLoop ::
  "MetadataImports \<Rightarrow> jsobj promise \<Rightarrow> (jsany \<times> jsval) list \<Rightarrow> jsobj promise" where
  "accumulateLoop h parentPromise [] = parentPromise"
| "accumulateLoop h parentPromise ((metadataExport, staticFilesMetadata) # items) =
     (case callExport metadataExport parentPromise of
        Inl e \<Rightarrow> Rejected e
      | Inr layerMetadataPromise \<Rightarrow>
          accumulateLoop h
            (chainLayer h staticFilesMetadata parentPromise layerMetadataPromise) items)"

definition accumulateMetadata :: "MetadataImports \<Rightarrow> (jsany \<times> jsval) list \<Rightarrow> jsobj promise" where
  "accumulateMetadata h metadataItems =
     accumulateLoop h (Fulfilled (createDefaultMetadata h)) metadataItems"

text \<open>
  The specification's reading of the loop, to compare with it: a left fold over the items
  in list order. The state of the fold is the parent promise, or the error of a call that
  threw; one step calls the export of the item with the parent promise accumulated so far
  and chains the merge of the layer behind it.
\<close>

definition layerStep ::
  "MetadataImports \<Rightarrow> error + jsobj promise \<Rightarrow> jsany \<times> jsval \<Rightarrow> error + jsobj promise" where
  "layerStep h acc item =
     (case acc of
        Inl e \<Rightarrow> Inl e
      | Inr parentPromise \<Rightarrow>
          (case callExport (fst item) parentPromise of
             Inl e \<Rightarrow> Inl e
           | Inr layerMetadataPromise \<Rightarrow>
               Inr (chainLayer h (snd item) parentPromise layerMetadataPromise)))"

definition foldLayers :: "MetadataImports \<Rightarrow> (jsany \<times> jsval) list \<Rightarrow> error + jsobj promise" where
  "foldLayers h metadataItems =
     foldl (layerStep h) (Inr (Fulfilled (createDefaultMetadata h))) metadataItems"

definition settle :: "error + 'a promise \<Rightarrow> 'a promise" where
  "settle r = (case r of Inl e \<Rightarrow> Rejected e | Inr p \<Rightarrow> p)"

section \<open>Regular expressions\<close>

text \<open>
  The diagnostic formatter tests compiler messages against regular expression literals.
  The literals use a small part of the language: literal characters, the dot, \<^verbatim>\<open>.+\<close>,
  the capturing group \<^verbatim>\<open>(.+)\<close>, the anchor \<^verbatim>\<open>^\<close>, and the alternation bar. A
  pattern is the list of its alternatives, split at every bar that is not escaped: the bar
  binds weaker than concatenation, so each alternative reaches from one bar (or an end of
  the pattern) to the next. An alternative is a list of tokens.
\<close>

datatype token =
    Lit string
  | AnyChar
  | AnyCharPlus
  | CaptureAnyPlus
  | InputStart

type_synonym regex = "token list list"

text \<open>
  Without the \<^verbatim>\<open>s\<close> flag the dot matches any character but a line terminator; with
  8-bit characters these are line feed and carriage return.
\<close>

text \<open>The single quote, for a literal that ends in one.\<close>

abbreviation (input) quote :: string where
  "quote \<equiv> [CHR 0x27]"

definition isLineTerminator :: "char \<Rightarrow> bool" where
  "isLineTerminator c = (c = CHR 0x0A \<or> c = CHR 0x0D)"

definition runLength :: "string \<Rightarrow> nat" where
  "runLength s = length (takeWhile (\<lambda>c. \<not> isLineTerminator c) s)"

fun firstSome :: "('a \<Rightarrow> 'b option) \<Rightarrow> 'a list \<Rightarrow> 'b option" where
  "firstSome f [] = None"
| "firstSome f (x # xs) = (case f x of Some y \<Rightarrow> Some y | None \<Rightarrow> firstSome f xs)"

text \<open>
  Matching an alternative at the current position, by backtracking. The result is the
  list of the captures of the alternative and the rest of the input behind the match.
  \<^verbatim>\<open>.+\<close> is greedy: it first takes the longest run of characters it can, and gives
  characters back one at a time for as long as the tokens behind it fail to match. The
  flag tells whether the position is the start of the input, for \<^verbatim>\<open>^\<close>.
\<close>

primrec matchTokens :: "token list \<Rightarrow> bool \<Rightarrow> string \<Rightarrow> (string option list \<times> string) option" where
  "matchTokens [] = (\<lambda>atStart s. Some ([], s))"
| "matchTokens (t # ts) = (\<lambda>atStart s.
     case t of
       Lit l \<Rightarrow>
         if prefix l s then matchTokens ts (atStart \<and> l = []) (drop (length l) s) else None
     | AnyChar \<Rightarrow>
         (case s of
            [] \<Rightarrow> None
          | c # cs \<Rightarrow> if isLineTerminator c then None else matchTokens ts False cs)
     | AnyCharPlus \<Rightarrow>
         firstSome (\<lambda>n. matchTokens ts False (drop n s)) (rev [1..<Suc (runLength s)])
     | CaptureAnyPlus \<Rightarrow>
         firstSome
           (\<lambda>n. case matchTokens ts False (drop n s) of
                  None \<Rightarrow> None
                | Some (captures, rest) \<Rightarrow> Some (Some (take n s) # captures, rest))
           (rev [1..<Suc (runLength s)])
     | InputStart \<Rightarrow> if atStart then matchTokens ts atStart s else None)"

definition groupCount :: "token list \<Rightarrow> nat" where
  "groupCount ts = length (filter (\<lambda>t. t = CaptureAnyPlus) ts)"

text \<open>
  The alternatives are tried in order at one position. The groups of the whole pattern
  are numbered from left to right; the groups of the alternatives that did not match are
  \<^verbatim>\<open>undefined\<close> (\<open>None\<close>) in the result.
\<close>

fun tryAlternatives ::
  "nat \<Rightarrow> regex \<Rightarrow> bool \<Rightarrow> string \<Rightarrow> (string option list \<times> string) option" where
  "tryAlternatives skipped [] atStart s = None"
| "tryAlternatives skipped (alt # alts) atStart s =
     (case matchTokens alt atStart s of
        Some (captures, rest) \<Rightarrow>
          Some (replicate skipped None @ captures @
                replicate (sum_list (map groupCount alts)) None, rest)
      | None \<Rightarrow> tryAlternatives (skipped + groupCount alt) alts atStart s)"

text \<open>
  \<^verbatim>\<open>String.prototype.match\<close> with a pattern that has no \<^verbatim>\<open>g\<close> flag: the leftmost
  position at which some alternative matches. The result is \<^verbatim>\<open>null\<close> (\<open>None\<close>) or
  the match array: the matched text at index 0, then the groups.
\<close>

fun searchFrom :: "regex \<Rightarrow> bool \<Rightarrow> string \<Rightarrow> string option list option" where
  "searchFrom r atStart [] =
     (case tryAlternatives 0 r atStart [] of
        Some (captures, rest) \<Rightarrow> Some (Some [] # captures)
      | None \<Rightarrow> None)"
| "searchFrom r atStart (c # cs) =
     (case tryAlternatives 0 r atStart (c # cs) of
        Some (captures, rest) \<Rightarrow>
          Some (Some (take (length (c # cs) - length rest) (c # cs)) # captures)
      | None \<Rightarrow> searchFrom r False cs)"

definition regexMatch :: "regex \<Rightarrow> string \<Rightarrow> string option list option" where
  "regexMatch r s = searchFrom r True s"

definition regexTest :: "regex \<Rightarrow> string \<Rightarrow> bool" where
  "regexTest r s = (regexMatch r s \<noteq> None)"

text \<open>Reading \<^verbatim>\<open>match[i]\<close>: \<^verbatim>\<open>undefined\<close> beyond the end of the array.\<close>

definition matchAt :: "string option list \<Rightarrow> nat \<Rightarrow> string option" where
  "matchAt m i = (if i < length m then m ! i else None)"

section \<open>String functions\<close>

text \<open>
  \<^verbatim>\<open>trim\<close> removes white space and line terminators from both ends;
  \<^verbatim>\<open>replace\<close> with a string pattern replaces its first occurrence (the replacement
  used in the code holds no \<^verbatim>\<open>$\<close>); a template literal prints \<^verbatim>\<open>undefined\<close> for
  an undefined value.
\<close>

definition isWhiteSpace :: "char \<Rightarrow> bool" where
  "isWhiteSpace c =
     (c = CHR 0x09 \<or> c = CHR 0x0A \<or> c = CHR 0x0B \<or> c = CHR 0x0C \<or> c = CHR 0x0D \<or>
      c = CHR 0x20 \<or> c = CHR 0xA0)"

definition trim :: "string \<Rightarrow> string" where
  "trim s = rev (dropWhile isWhiteSpace (rev (dropWhile isWhiteSpace s)))"

fun replaceFirst :: "string \<Rightarrow> string \<Rightarrow> string \<Rightarrow> string" where
  "replaceFirst pat rep [] = (if pat = [] then rep else [])"
| "replaceFirst pat rep (c # cs) =
     (if prefix pat (c # cs) then rep @ drop (length pat) (c # cs)
      else c # replaceFirst pat rep cs)"

definition templateString :: "string option \<Rightarrow> string" where
  "templateString v = (case v of None \<Rightarrow> ''undefined'' | Some s \<Rightarrow> s)"

text \<open>
  The operator \<^verbatim>\<open>a || b\<close> on values that are a string, undefined or null, and
  with a string as its second operand.
\<close>

definition orString :: "string option \<Rightarrow> string option \<Rightarrow> string option" where
  "orString a b = (case a of Some s \<Rightarrow> if s \<noteq> [] then a else b | None \<Rightarrow> b)"

definition orDefault :: "string option \<Rightarrow> string \<Rightarrow> string" where
  "orDefault a b = (case a of Some s \<Rightarrow> if s \<noteq> [] then s else b | None \<Rightarrow> b)"

section \<open>Compiler diagnostics\<close>

text \<open>
  The enumeration \<^verbatim>\<open>DiagnosticCategory\<close> of the file is numeric, and the category of
  a diagnostic is a number that the formatter also compares with a numeral.
\<close>

abbreviation (input) DiagnosticCategory_Warning :: nat where
  "DiagnosticCategory_Warning \<equiv> 0"

abbreviation (input) DiagnosticCategory_Error :: nat where
  "DiagnosticCategory_Error \<equiv> 1"

abbreviation (input) DiagnosticCategory_Suggestion :: nat where
  "DiagnosticCategory_Suggestion \<equiv> 2"

abbreviation (input) DiagnosticCategory_Message :: nat where
  "DiagnosticCategory_Message \<equiv> 3"

text \<open>
  The shapes of the TypeScript compiler API that the formatter reads. A message is a
  string or a chain of messages; a chain element has a text, a code and an optional list
  of elements below it. Of a source file the formatter reads the name and the text and
  calls two methods, which are fields here: \<^verbatim>\<open>getLineAndCharacterOfPosition\<close>, from
  a position to a line and a character (both counted from 0 by the compiler), and
  \<^verbatim>\<open>getFullText\<close>.
\<close>

datatype DiagnosticMessageChain =
  Chain (chainText: string) (chainCode: int) (chainNext: "DiagnosticMessageChain list option")

datatype MessageText = TextString string | TextChain DiagnosticMessageChain

record SourceFile =
  fileName :: string
  fileText :: string
  getLineAndCharacterOfPosition :: "nat option \<Rightarrow> nat \<times> nat"
  getFullText :: string

record Diagnostic =
  category :: nat
  code :: int
  diagnosticFile :: "SourceFile option"
  start :: "nat option"
  messageText :: MessageText

text \<open>
  The libraries the formatter calls: the styles of \<^verbatim>\<open>chalk\<close>, three functions of
  \<^verbatim>\<open>path\<close> and \<^verbatim>\<open>codeFrameColumns\<close> (text, line, column; the option
  \<^verbatim>\<open>forceColor\<close> is fixed). \<^verbatim>\<open>chalk.bold\<close> is also handed groups of a match,
  which can be undefined. The compiler itself, \<^verbatim>\<open>ts\<close>, is an argument of
  \<^verbatim>\<open>getFormattedDiagnostic\<close> in the source too.
\<close>

record DiagnosticImports =
  chalk_bold :: "string option \<Rightarrow> string"
  chalk_cyan :: "string \<Rightarrow> string"
  chalk_yellow :: "string \<Rightarrow> string"
  chalk_yellow_bold :: "string \<Rightarrow> string"
  chalk_red_bold :: "string \<Rightarrow> string"
  chalk_cyan_bold :: "string \<Rightarrow> string"
  path_relative :: "string \<Rightarrow> string \<Rightarrow> string"
  path_join :: "string list \<Rightarrow> string"
  path_posix_normalize :: "string \<Rightarrow> string"
  codeFrameColumns :: "string \<Rightarrow> nat \<Rightarrow> nat \<Rightarrow> string"

record TypeScript =
  flattenDiagnosticMessageText :: "MessageText \<Rightarrow> string \<Rightarrow> string"

section \<open>Link diagnostics\<close>

text \<open>
  The two patterns of \<^verbatim>\<open>getFormattedLinkDiagnosticMessageText\<close>, lines 21 and 24:
  \<^verbatim>\<open>/Type '"(.+)"' is not assignable to type 'Route<string> | URL'\./\<close> and
  \<^verbatim>\<open>/Type '"(.+)"' is not assignable to type 'URL | Route<string>'\./\<close>. The bar
  between the two type names is not escaped, so each literal has two alternatives: the text
  up to and including the space before the bar, with the group, and the text from the
  space behind the bar to the final dot, with no group.
\<close>

definition linkPattern1 :: regex where
  \<open>linkPattern1 =
     [[Lit ''Type \'"'', CaptureAnyPlus,
       Lit ''"\' is not assignable to type \'Route<string> ''],
      [Lit '' URL\'.'']]\<close>

definition linkPattern2 :: regex where
  \<open>linkPattern2 =
     [[Lit ''Type \'"'', CaptureAnyPlus,
       Lit ''"\' is not assignable to type \'URL ''],
      [Lit '' Route<string>\'.'']]\<close>

definition getFormattedLinkDiagnosticMessageText ::
  "DiagnosticImports \<Rightarrow> Diagnostic \<Rightarrow> string option" where
  \<open>getFormattedLinkDiagnosticMessageText deps diagnostic =
     (case messageText diagnostic of
        TextString message \<Rightarrow>
          if code diagnostic = 2322 then
            (case (case regexMatch linkPattern1 message of
                     Some m \<Rightarrow> Some m
                   | None \<Rightarrow> regexMatch linkPattern2 message) of
               Some match \<Rightarrow>
                 Some (''"'' @ chalk_bold deps (matchAt match 1) @
                       ''" is not an existing route. If it is intentional, please type it explicitly with `as Route`.'')
             | None \<Rightarrow> None)
          else None
      | TextChain chain \<Rightarrow> None)\<close>

section \<open>Layout and page diagnostics\<close>

text \<open>
  The patterns of \<^verbatim>\<open>getFormattedLayoutAndPageDiagnosticMessageText\<close>, each with one
  alternative, in the order of the source: lines 42, 46, 55, 72, 82 (its last dot is not
  escaped and matches any character), 108, 121, 129, 138 and 161.
\<close>

definition fileCommentPattern :: regex where
  "fileCommentPattern = [[InputStart, Lit ''// File: '', CaptureAnyPlus, Lit [CHR 0x0A]]]"

definition pageImportPattern :: regex where
  \<open>pageImportPattern = [[Lit ''\'typeof import("'', AnyCharPlus, Lit (''page")'' @ quote)]]\<close>

definition filepathAndTypePattern :: regex where
  \<open>filepathAndTypePattern =
     [[Lit ''\'typeof import("'', CaptureAnyPlus, Lit (''")'' @ quote), AnyCharPlus,
       Lit quote, CaptureAnyPlus, Lit quote]]\<close>

definition mismatchedFieldPattern :: regex where
  \<open>mismatchedFieldPattern = [[Lit (''The types of '' @ quote), CaptureAnyPlus, Lit quote]]\<close>

definition typesPattern :: regex where
  \<open>typesPattern =
     [[Lit (''Type '' @ quote), CaptureAnyPlus, Lit (''\' is not assignable to type '' @ quote),
       CaptureAnyPlus, Lit quote, AnyChar]]\<close>

definition invalidPropPattern :: regex where
  \<open>invalidPropPattern =
     [[Lit (''Type '' @ quote), CaptureAnyPlus,
       Lit (''\' is missing the following properties from type '' @ quote), CaptureAnyPlus,
       Lit quote]]\<close>

definition invalidPattern :: regex where
  \<open>invalidPattern = [[Lit (''Type '' @ quote), CaptureAnyPlus, Lit ''\' has'']]\<close>

definition incompatPagePropPattern :: regex where
  \<open>incompatPagePropPattern =
     [[Lit (''Property '' @ quote), CaptureAnyPlus, Lit (''\' is missing in type \'PageProps'' @ quote)]]\<close>

definition extraLayoutPropPattern :: regex where
  \<open>extraLayoutPropPattern =
     [[Lit (''Property '' @ quote), CaptureAnyPlus,
       Lit (''\' is missing in type \'LayoutProps\' but required in type '' @ quote),
       CaptureAnyPlus, Lit quote]]\<close>

definition filepathAndInvalidExportPattern :: regex where
  \<open>filepathAndInvalidExportPattern =
     [[Lit ''\'typeof import("'', CaptureAnyPlus, Lit (''")'' @ quote), AnyCharPlus,
       Lit ''Impossible<"'', CaptureAnyPlus, Lit ''">'']]\<close>

text \<open>\<^verbatim>\<open>'\n' + ' '.repeat(indent * 2)\<close>, which starts every line that is added.\<close>

definition newLine :: "nat \<Rightarrow> string" where
  "newLine indent = CHR 0x0A # replicate (indent * 2) CHR '' ''"

text \<open>
  The \<^verbatim>\<open>switch\<close> on the code of one element of the chain, inside
  \<^verbatim>\<open>processNext\<close>: it may append a line to \<^verbatim>\<open>main\<close>, which is passed in and
  returned. The groups read after a successful match always took part in it; a method
  call on a group is applied under the option.
\<close>

definition processItem ::
  "DiagnosticImports \<Rightarrow> string \<Rightarrow> nat \<Rightarrow> DiagnosticMessageChain \<Rightarrow> string \<Rightarrow> string" where
  \<open>processItem deps type indent item main =
     (if chainCode item = 2200 then
        (case regexMatch mismatchedFieldPattern (chainText item) of
           Some mismatchedField \<Rightarrow>
             main @ newLine indent @
             ''"'' @ chalk_bold deps (matchAt mismatchedField 1) @ ''" has the wrong type:''
         | None \<Rightarrow> main)
      else if chainCode item = 2322 then
        (case regexMatch typesPattern (chainText item) of
           Some types \<Rightarrow>
             if matchAt types 2 = Some ''PageComponent'' \<or>
                matchAt types 2 = Some ''LayoutComponent''
             then main @ newLine indent @
                  ''The exported '' @ type @ '' component isn\'t correctly typed.''
             else main @ newLine indent @
                  ''Expected "'' @
                  chalk_bold deps
                    (map_option
                       (replaceFirst ''"__invalid_negative_number__"'' ''number (>= 0)'')
                       (matchAt types 2)) @
                  ''", got "'' @ chalk_bold deps (matchAt types 1) @ ''".''
         | None \<Rightarrow> main)
      else if chainCode item = 2326 then
        main @ newLine indent @ ''Invalid configuration:''
      else if chainCode item = 2739 then
        (case regexMatch invalidPropPattern (chainText item) of
           Some invalidProp \<Rightarrow>
             if matchAt invalidProp 1 = Some ''LayoutProps'' \<or>
                matchAt invalidProp 1 = Some ''PageProps''
             then main @ newLine indent @
                  ''Prop "'' @ templateString (matchAt invalidProp 2) @
                  ''" is incompatible with the '' @ type @ ''.''
             else main
         | None \<Rightarrow> main)
      else if chainCode item = 2559 then
        (case regexMatch invalidPattern (chainText item) of
           Some invalid \<Rightarrow>
             main @ newLine indent @
             ''Type "'' @ chalk_bold deps (matchAt invalid 1) @ ''" isn\'t allowed.''
         | None \<Rightarrow> main)
      else if chainCode item = 2741 then
        (case regexMatch incompatPagePropPattern (chainText item) of
           Some incompatPageProp \<Rightarrow>
             main @ newLine indent @
             ''Prop "'' @ chalk_bold deps (matchAt incompatPageProp 1) @
             ''" will never be passed. Remove it from the component\'s props.''
         | None \<Rightarrow>
             (case regexMatch extraLayoutPropPattern (chainText item) of
                Some extraLayoutProp \<Rightarrow>
                  main @ newLine indent @
                  ''Prop "'' @ chalk_bold deps (matchAt extraLayoutProp 1) @
                  ''" is not valid for this Layout, remove it to fix.''
              | None \<Rightarrow> main))
      else main)\<close>

text \<open>
  \<^verbatim>\<open>processNext\<close> walks the chain below a message: every element is handled, then the
  elements below it with the indentation one deeper, then the next element.
\<close>

fun processNext ::
    "DiagnosticImports \<Rightarrow> string \<Rightarrow> nat \<Rightarrow> DiagnosticMessageChain list option \<Rightarrow> string \<Rightarrow> string"
  and processItems ::
    "DiagnosticImports \<Rightarrow> string \<Rightarrow> nat \<Rightarrow> DiagnosticMessageChain list \<Rightarrow> string \<Rightarrow> string"
where
  "processNext deps type indent None main = main"
| "processNext deps type indent (Some items) main = processItems deps type indent items main"
| "processItems deps type indent [] main = main"
| "processItems deps type indent (Chain text c below # items) main =
     processItems deps type indent items
       (processNext deps type (indent + 1) below
          (processItem deps type indent (Chain text c below) main))"

definition getFormattedLayoutAndPageDiagnosticMessageText ::
  "DiagnosticImports \<Rightarrow> string \<Rightarrow> Diagnostic \<Rightarrow> string option" where
  \<open>getFormattedLayoutAndPageDiagnosticMessageText deps baseDir diagnostic =
     (let sourceFilepath =
            (case diagnosticFile diagnostic of
               None \<Rightarrow> []
             | Some f \<Rightarrow>
                 (case regexMatch fileCommentPattern (trim (fileText f)) of
                    None \<Rightarrow> []
                  | Some m \<Rightarrow> (case matchAt m 1 of None \<Rightarrow> [] | Some path \<Rightarrow> path)))
      in case messageText diagnostic of
           TextString s \<Rightarrow> None
         | TextChain message \<Rightarrow>
             if sourceFilepath = [] then None
             else
               (let relativeSourceFile = path_relative deps baseDir sourceFilepath;
                    type = (if regexTest pageImportPattern (chainText message)
                            then ''Page'' else ''Layout'')
                in if chainCode message = 2344 then
                     (case regexMatch filepathAndTypePattern (chainText message) of
                        Some filepathAndType \<Rightarrow>
                          Some (processNext deps type 1 (chainNext message)
                                  (type @ '' "'' @ chalk_bold deps (Some relativeSourceFile) @
                                   ''" does not match the required types of a Next.js '' @
                                   type @ ''.''))
                      | None \<Rightarrow> None)
                   else if chainCode message = 2345 then
                     (case regexMatch filepathAndInvalidExportPattern (chainText message) of
                        Some filepathAndInvalidExport \<Rightarrow>
                          Some (type @ '' "'' @ chalk_bold deps (Some relativeSourceFile) @
                                ''" exports an invalid "'' @
                                chalk_bold deps (matchAt filepathAndInvalidExport 2) @
                                ''" field. '' @ type @
                                '' should only export a default React component and configuration options. Learn more: https://nextjs.org/docs/messages/invalid-segment-export'')
                      | None \<Rightarrow> None)
                   else None))\<close>

section \<open>Formatting a diagnostic\<close>

text \<open>
  \<^verbatim>\<open>getFormattedDiagnostic\<close>, in the order of the source. The optional parameter
  \<^verbatim>\<open>isAppDirEnabled\<close> is a boolean or undefined. The function is \<^verbatim>\<open>async\<close>
  and holds no \<^verbatim>\<open>throw\<close>; it returns a fulfilled promise. Its parts have names of
  their own: whether the error comes from the types directory (line 185), the reason
  (lines 191 to 199), the heading for the category (the \<^verbatim>\<open>switch\<close> at line 201), the
  file name that is shown (line 228) and the assembly of the message from the reason
  (lines 200 to 255).
\<close>

definition isLayoutOrPageError ::
  "DiagnosticImports \<Rightarrow> string \<Rightarrow> string \<Rightarrow> Diagnostic \<Rightarrow> bool option \<Rightarrow> bool" where
  "isLayoutOrPageError deps baseDir distDir diagnostic isAppDirEnabled =
     (isAppDirEnabled = Some True \<and>
      (case diagnosticFile diagnostic of
         None \<Rightarrow> False
       | Some f \<Rightarrow> prefix (path_join deps [baseDir, distDir, ''types'']) (fileName f)))"

definition diagnosticReason ::
  "DiagnosticImports \<Rightarrow> TypeScript \<Rightarrow> string \<Rightarrow> string \<Rightarrow> Diagnostic \<Rightarrow> bool option \<Rightarrow> string" where
  "diagnosticReason deps ts baseDir distDir diagnostic isAppDirEnabled =
     (let linkReason = getFormattedLinkDiagnosticMessageText deps diagnostic;
          layoutReason =
            (if orString linkReason None = None \<and>
                isLayoutOrPageError deps baseDir distDir diagnostic isAppDirEnabled
             then getFormattedLayoutAndPageDiagnosticMessageText deps baseDir diagnostic
             else None)
      in orDefault (orString linkReason layoutReason)
           (flattenDiagnosticMessageText ts (messageText diagnostic) [CHR 0x0A]))"

definition categoryHeading :: "DiagnosticImports \<Rightarrow> nat \<Rightarrow> string" where
  "categoryHeading deps categoryNumber =
     (if categoryNumber = DiagnosticCategory_Warning then
        chalk_yellow_bold deps ''Type warning'' @ '': ''
      else if categoryNumber = DiagnosticCategory_Error then
        chalk_red_bold deps ''Type error'' @ '': ''
      else chalk_cyan_bold deps (if categoryNumber = 2 then ''Suggestion'' else ''Info'') @
           '': '')"

definition shownFileName :: "DiagnosticImports \<Rightarrow> string \<Rightarrow> SourceFile \<Rightarrow> string" where
  "shownFileName deps baseDir f =
     (let name =
            path_posix_normalize deps
              (map (\<lambda>c. if c = CHR 0x5C then CHR ''/'' else c)
                 (path_relative deps baseDir (fileName f)))
      in if \<not> prefix ''.'' name then ''./'' @ name else name)"

definition formatMessage ::
  "DiagnosticImports \<Rightarrow> string \<Rightarrow> string \<Rightarrow> Diagnostic \<Rightarrow> bool option \<Rightarrow> string \<Rightarrow> string" where
  "formatMessage deps baseDir distDir diagnostic isAppDirEnabled reason =
     (let message = [];
          message = message @ categoryHeading deps (category diagnostic);
          message = message @ reason @ [CHR 0x0A]
      in case diagnosticFile diagnostic of
           Some f \<Rightarrow>
             if \<not> isLayoutOrPageError deps baseDir distDir diagnostic isAppDirEnabled then
               (let pos = getLineAndCharacterOfPosition f (start diagnostic);
                    line = fst pos + 1;
                    character = snd pos + 1;
                    message =
                      chalk_cyan deps (shownFileName deps baseDir f) @ '':'' @
                      chalk_yellow deps (decimal line) @ '':'' @
                      chalk_yellow deps (decimal character) @ [CHR 0x0A] @ message;
                    message =
                      message @ [CHR 0x0A] @
                      codeFrameColumns deps (getFullText f) line character
                in message)
             else message
         | None \<Rightarrow> message)"

definition getFormattedDiagnostic ::
  "DiagnosticImports \<Rightarrow> TypeScript \<Rightarrow> string \<Rightarrow> string \<Rightarrow> Diagnostic \<Rightarrow> bool option \<Rightarrow>
   string promise" where
  "getFormattedDiagnostic deps ts baseDir distDir diagnostic isAppDirEnabled =
     (let reason = diagnosticReason deps ts baseDir distDir diagnostic isAppDirEnabled
      in Fulfilled (formatMessage deps baseDir distDir diagnostic isAppDirEnabled reason))"

section \<open>Example inputs\<close>

text \<open>
  Concrete values on which the definitions are run below. The imported resolvers are
  instantiated with simple functions: \<open>exampleMergeTitle\<close> turns a string title into
  an object with an \<^verbatim>\<open>absolute\<close> and a \<^verbatim>\<open>template\<close> field and touches nothing
  else, and \<open>exampleIsClientReference\<close> recognises a module by a marker property.
\<close>

definition exampleMergeTitle :: "jsobj \<Rightarrow> jsval \<Rightarrow> jsobj" where
  "exampleMergeTitle obj template =
     (case getProp obj ''title'' of
        JStr t \<Rightarrow> setProp obj ''title'' (JObj [(''absolute'', JStr t), (''template'', JNull)])
      | _ \<Rightarrow> obj)"

definition exampleResolveArray :: "jsval \<Rightarrow> jsval" where
  "exampleResolveArray v =
     (case v of JUndefined \<Rightarrow> JUndefined | JNull \<Rightarrow> JUndefined | JArr xs \<Rightarrow> JArr xs | _ \<Rightarrow> JArr [v])"

definition exampleImports :: MetadataImports where
  "exampleImports =
     \<lparr> createDefaultMetadata =
         [(''title'', JNull), (''description'', JNull), (''keywords'', JNull),
          (''icons'', JNull), (''other'', JObj [])],
       mergeTitle = exampleMergeTitle,
       resolveAlternates = (\<lambda>v base. v),
       resolveOpenGraph = (\<lambda>v base. v),
       resolveTwitter = (\<lambda>v base. v),
       resolveVerification = (\<lambda>v. v),
       resolveViewport = (\<lambda>v. v),
       resolveIcons = (\<lambda>v. v),
       resolveAppleWebApp = (\<lambda>v. v),
       resolveAppLinks = (\<lambda>v. v),
       resolveRobots = (\<lambda>v. v),
       resolveAsArrayOrUndefined = exampleResolveArray \<rparr>"

definition exampleResolver :: jsfun where
  "exampleResolver args =
     (case argAt args 0 of
        ArgPromise (Fulfilled parent) \<Rightarrow>
          Inr (Fulfilled (JObj [(''keywords'', getProp parent ''description'')]))
      | _ \<Rightarrow> Inr (Fulfilled JNull))"

definition exampleItems :: "(jsany \<times> jsval) list" where
  "exampleItems =
     [(JData (JObj [(''title'', JStr ''Home''), (''description'', JStr ''intro'')]), JNull),
      (JFunc exampleResolver, JObj [(''icons'', JStr ''/icon.png'')])]"

definition exampleGenerateMetadata :: jsfun where
  "exampleGenerateMetadata args = Inr (Fulfilled (JObj [(''title'', JStr ''Generated'')]))"

definition exampleIsClientReference :: "jsmodule \<Rightarrow> bool" where
  "exampleIsClientReference m =
     (case getExport m ''$$typeof'' of
        JData (JStr s) \<Rightarrow> s = ''react.client.reference''
      | _ \<Rightarrow> False)"

definition exampleServerModule :: jsmodule where
  "exampleServerModule =
     [(''metadata'', JData (JObj [(''title'', JStr ''Static'')])),
      (''generateMetadata'', JFunc exampleGenerateMetadata)]"

definition exampleClientModule :: jsmodule where
  "exampleClientModule =
     (''$$typeof'', JData (JStr ''react.client.reference'')) # exampleServerModule"

definition exampleStaticModule :: jsmodule where
  "exampleStaticModule = [(''metadata'', JData (JObj [(''title'', JStr ''Static'')]))]"

definition exampleTarget :: jsobj where
  "exampleTarget = createDefaultMetadata exampleImports"

definition exampleSource :: jsobj where
  "exampleSource = [(''description'', JStr ''intro''), (''keywords'', JStr ''a''), (''theme'', JNum 1)]"

definition exampleUnknownSource :: jsobj where
  "exampleUnknownSource = [(''theme'', JNum 1), (''0'', JStr ''x'')]"

definition exampleParent :: jsobj where
  "exampleParent =
     [(''title'', JObj [(''absolute'', JStr ''Home''), (''template'', JNull)]),
      (''description'', JStr ''intro''), (''keywords'', JNull),
      (''icons'', JNull), (''other'', JObj [])]"

definition exampleResult :: jsobj where
  "exampleResult =
     [(''title'', JObj [(''absolute'', JStr ''Home''), (''template'', JNull)]),
      (''description'', JStr ''intro''), (''keywords'', JArr [JStr ''intro'']),
      (''icons'', JStr ''/icon.png''), (''other'', JObj [])]"

definition exampleExported :: jsval where
  "exampleExported = JObj [(''icons'', JStr ''/exported.png''), (''description'', JStr ''intro'')]"

definition exampleStatic :: jsval where
  "exampleStatic = JObj [(''icons'', JObj [(''icon'', JArr [JStr ''/favicon.ico''])])]"

text \<open>
  For the router state: an instance of the two imports, with a stand-in for
  \<^verbatim>\<open>createHrefFromUrl\<close> that cuts the origin off an absolute address, and parameters
  that differ only in \<^verbatim>\<open>isServer\<close> and \<^verbatim>\<open>location\<close>.
\<close>

definition exampleHref :: "string \<Rightarrow> string" where
  "exampleHref url = drop (length ''https://example.com'') url"

definition exampleRouterImports :: "(string, string) RouterImports" where
  "exampleRouterImports = \<lparr> CacheStates_READY = ''READY'', createHrefFromUrl = exampleHref \<rparr>"

definition exampleParameters ::
  "bool \<Rightarrow> string option \<Rightarrow> (string, string, nat, string) InitialRouterStateParameters" where
  "exampleParameters server loc =
     \<lparr> initialTree = ''tree'',
       initialCanonicalUrl = ''/initial'',
       children = ''children'',
       initialParallelRoutes = [''children'' \<mapsto> 1],
       isServer = server,
       location = loc \<rparr>"

definition exampleRouterState ::
  "bool \<Rightarrow> string option \<Rightarrow> (string, string, unit, string, nat, unit) RouterState" where
  "exampleRouterState server loc =
     createInitialRouterState exampleRouterImports (exampleParameters server loc)"

text \<open>
  For the formatter: the styles of \<^verbatim>\<open>chalk\<close> with colours switched off, path
  functions for paths below one base directory, a one-line code frame, and a compiler
  whose flattened text of a message is its first line.
\<close>

definition exampleRelative :: "string \<Rightarrow> string \<Rightarrow> string" where
  "exampleRelative base p = (if prefix (base @ ''/'') p then drop (length base + 1) p else p)"

definition exampleJoin :: "string list \<Rightarrow> string" where
  "exampleJoin parts = foldr (\<lambda>part joined. if joined = [] then part else part @ ''/'' @ joined) parts []"

definition exampleDiagnosticImports :: DiagnosticImports where
  "exampleDiagnosticImports =
     \<lparr> chalk_bold = templateString,
       chalk_cyan = (\<lambda>s. s),
       chalk_yellow = (\<lambda>s. s),
       chalk_yellow_bold = (\<lambda>s. s),
       chalk_red_bold = (\<lambda>s. s),
       chalk_cyan_bold = (\<lambda>s. s),
       path_relative = exampleRelative,
       path_join = exampleJoin,
       path_posix_normalize = (\<lambda>s. s),
       codeFrameColumns = (\<lambda>text line column. ''> '' @ decimal line @ '' | '' @ text) \<rparr>"

definition exampleTypeScript :: TypeScript where
  "exampleTypeScript =
     \<lparr> flattenDiagnosticMessageText =
         (\<lambda>m newLine. case m of TextString s \<Rightarrow> s | TextChain c \<Rightarrow> chainText c) \<rparr>"

definition exampleSourceFile :: SourceFile where
  "exampleSourceFile =
     \<lparr> fileName = ''/app/pages/index.tsx'',
       fileText = ''const n: number = x'',
       getLineAndCharacterOfPosition = (\<lambda>pos. (0, 18)),
       getFullText = ''const n: number = x'' \<rparr>"

definition exampleTypesFile :: SourceFile where
  "exampleTypesFile =
     \<lparr> fileName = ''/app/.next/types/app/page.ts'',
       fileText = ''// File: /app/app/page.tsx\<newline>import * as entry'',
       getLineAndCharacterOfPosition = (\<lambda>pos. (7, 2)),
       getFullText = ''// File: /app/app/page.tsx\<newline>import * as entry'' \<rparr>"

definition exampleDiagnostic :: "SourceFile option \<Rightarrow> Diagnostic" where
  \<open>exampleDiagnostic f =
     \<lparr> category = DiagnosticCategory_Error,
       code = 2304,
       diagnosticFile = f,
       start = Some 18,
       messageText = TextString ''Cannot find name \'x\'.'' \<rparr>\<close>

text \<open>
  A diagnostic as the compiler reports it for \<^verbatim>\<open>const u: string | URL = 5\<close>:
  error 2322 with a message that names no route.
\<close>

definition exampleUnionDiagnostic :: Diagnostic where
  \<open>exampleUnionDiagnostic =
     \<lparr> category = DiagnosticCategory_Error,
       code = 2322,
       diagnosticFile = None,
       start = None,
       messageText =
         TextString ''Type \'number\' is not assignable to type \'string | URL\'.'' \<rparr>\<close>

text \<open>The diagnostic that the patterns are written for: a link to a route that does not exist.\<close>

definition exampleRouteDiagnostic :: Diagnostic where
  \<open>exampleRouteDiagnostic =
     \<lparr> category = DiagnosticCategory_Error,
       code = 2322,
       diagnosticFile = None,
       start = None,
       messageText =
         TextString
           ''Type \'"/blog"\' is not assignable to type \'Route<string> | URL\'.'' \<rparr>\<close>

text \<open>
  A diagnostic from the types directory for a page whose default export has the wrong
  type: a chain with code 2344 at its head.
\<close>

definition examplePageDiagnostic :: Diagnostic where
  \<open>examplePageDiagnostic =
     \<lparr> category = DiagnosticCategory_Error,
       code = 2344,
       diagnosticFile = Some exampleTypesFile,
       start = Some 1,
       messageText =
         TextChain
           (Chain
              ''Type \'typeof import("/app/app/page")\' does not satisfy the constraint \'PageProps\'.''
              2344
              (Some
                 [Chain ''Types of property \'default\' are incompatible.'' 2326
                    (Some
                       [Chain
                          ''Type \'string\' is not assignable to type \'PageComponent\'.''
                          2322 None])])) \<rparr>\<close>

section \<open>Lemmas about the metadata functions\<close>

lemma thenP_Fulfilled_id: "thenP p Fulfilled = p"
  by (cases p) simp_all

lemma layerStep_Inl: "layerStep h (Inl e) item = Inl e"
  by (simp add: layerStep_def)

lemma foldl_layerStep_Inl: "foldl (layerStep h) (Inl e) items = Inl e"
  by (induction items) (simp_all add: layerStep_Inl)

lemma layerStep_Inr:
  "layerStep h (Inr p) (ex, st) =
     (case callExport ex p of Inl e \<Rightarrow> Inl e | Inr lp \<Rightarrow> Inr (chainLayer h st p lp))"
  by (simp add: layerStep_def split: sum.splits)

lemma accumulateLoop_fold: "accumulateLoop h p items = settle (foldl (layerStep h) (Inr p) items)"
proof (induction items arbitrary: p)
  case Nil
  show ?case by (simp add: settle_def)
next
  case (Cons item items)
  obtain ex st where item: "item = (ex, st)" by (cases item)
  show ?case
  proof (cases "callExport ex p")
    case (Inl e)
    then show ?thesis by (simp add: item layerStep_Inr foldl_layerStep_Inl settle_def)
  next
    case (Inr lp)
    then show ?thesis by (simp add: item layerStep_Inr Cons.IH)
  qed
qed

lemma accumulateMetadata_settle: "accumulateMetadata h items = settle (foldLayers h items)"
  by (simp add: accumulateMetadata_def foldLayers_def accumulateLoop_fold)

lemma foldLayers_snoc: "foldLayers h (items @ [item]) = layerStep h (foldLayers h items) item"
  by (simp add: foldLayers_def)

lemma accumulateMetadata_snoc_data:
  "accumulateMetadata h (items @ [(JData exported, static)]) =
   thenP (accumulateMetadata h items) (\<lambda>resolved. Fulfilled (mergeLayer h static resolved exported))"
proof (cases "foldLayers h items")
  case (Inl e)
  then show ?thesis
    by (simp add: accumulateMetadata_settle foldLayers_snoc layerStep_Inl settle_def)
next
  case (Inr p)
  then show ?thesis
    by (simp add: accumulateMetadata_settle foldLayers_snoc layerStep_Inr callExport_def
          chainLayer_def settle_def)
qed

lemma map_of_setProp: "map_of (setProp obj k v) = (map_of obj)(k \<mapsto> v)"
  by (simp add: setProp_def AList.update_conv')

lemma setProp_other: "k \<noteq> key \<Longrightarrow> map_of (setProp target key v) k = map_of target k"
  by (simp add: map_of_setProp)

lemma mergeKey_unknown:
  "key \<notin> set knownKeys \<Longrightarrow> mergeKey h source mb ts target key = target"
  by (simp add: mergeKey_def knownKeys_def)

lemma knownKeys_cases:
  "key \<in> set knownKeys \<Longrightarrow>
   key = ''title'' \<or> key = ''alternates'' \<or> key = ''openGraph'' \<or> key = ''twitter'' \<or>
   key = ''verification'' \<or> key = ''viewport'' \<or> key = ''icons'' \<or> key = ''appleWebApp'' \<or>
   key = ''appLinks'' \<or> key = ''robots'' \<or>
   key = ''archives'' \<or> key = ''assets'' \<or> key = ''bookmarks'' \<or> key = ''keywords'' \<or>
   key = ''authors'' \<or>
   key = ''applicationName'' \<or> key = ''description'' \<or> key = ''generator'' \<or>
   key = ''themeColor'' \<or> key = ''creator'' \<or> key = ''publisher'' \<or> key = ''category'' \<or>
   key = ''classification'' \<or> key = ''referrer'' \<or> key = ''colorScheme'' \<or>
   key = ''itunes'' \<or> key = ''formatDetection'' \<or>
   key = ''other'' \<or> key = ''metadataBase''"
  by (simp add: knownKeys_def arrayKeys_def directKeys_def)

lemma mergeKey_frame:
  assumes mt: "\<forall>obj t k. k \<noteq> ''title'' \<longrightarrow> map_of (mergeTitle h obj t) k = map_of obj k"
    and ne: "k \<noteq> key"
  shows "map_of (mergeKey h source mb ts target key) k = map_of target k"
proof (cases "key \<in> set knownKeys")
  case False
  then show ?thesis by (simp add: mergeKey_unknown)
next
  case True
  from knownKeys_cases[OF True] ne show ?thesis
    by (elim disjE; hypsubst)
       (simp_all add: mergeKey_def Let_def arrayKeys_def directKeys_def setProp_other mt)
qed

lemma foldl_mergeKey_frame:
  assumes mt: "\<forall>obj t k. k \<noteq> ''title'' \<longrightarrow> map_of (mergeTitle h obj t) k = map_of obj k"
    and "k \<notin> set keys"
  shows "map_of (foldl (mergeKey h source mb ts) target keys) k = map_of target k"
  using assms(2)
proof (induction keys arbitrary: target)
  case Nil
  show ?case by simp
next
  case (Cons key keys)
  then have "k \<noteq> key" "k \<notin> set keys" by auto
  then show ?case using Cons.IH mergeKey_frame[OF mt] by simp
qed

lemma foldl_mergeKey_filter:
  "foldl (mergeKey h source mb ts) target keys =
   foldl (mergeKey h source mb ts) target (filter (\<lambda>k. k \<in> set knownKeys) keys)"
  by (induction keys arbitrary: target) (simp_all add: mergeKey_unknown)

lemma map_of_assignProps_fold:
  "map_of (foldl (\<lambda>acc kv. setProp acc (fst kv) (snd kv)) obj kvs) = map_of obj ++ map_of (rev kvs)"
  by (induction kvs arbitrary: obj) (auto simp: map_of_setProp map_add_def fun_eq_iff split: option.splits)

lemma map_of_rev_distinct: "distinct (map fst kvs) \<Longrightarrow> map_of (rev kvs) = map_of kvs"
  by (subst map_of_inject_set) (simp_all add: rev_map[symmetric])

lemma map_of_assignProps: "map_of (assignProps obj src) = map_of obj ++ map_of (rev (ownProps src))"
  by (simp add: assignProps_def map_of_assignProps_fold)

lemma fold_setProp_fresh:
  "distinct (map fst kvs) \<Longrightarrow> set (map fst kvs) \<inter> set (map fst obj) = {} \<Longrightarrow>
   foldl (\<lambda>acc kv. setProp acc (fst kv) (snd kv)) obj kvs = obj @ kvs"
proof (induction kvs arbitrary: obj)
  case Nil
  show ?case by simp
next
  case (Cons kv kvs)
  have fresh: "fst kv \<notin> set (map fst obj)" using Cons.prems by auto
  have upd: "setProp obj (fst kv) (snd kv) = obj @ [kv]"
    using fresh by (induction obj) (auto simp: setProp_def)
  show ?case using Cons by (simp add: upd)
qed

lemma fold_setProp_same:
  "distinct (map fst obj) \<Longrightarrow> set kvs \<subseteq> set obj \<Longrightarrow>
   foldl (\<lambda>acc kv. setProp acc (fst kv) (snd kv)) obj kvs = obj"
proof (induction kvs)
  case Nil
  show ?case by simp
next
  case (Cons kv kvs)
  then have "map_of obj (fst kv) = Some (snd kv)" by simp
  then have "setProp obj (fst kv) (snd kv) = obj"
    by (simp add: setProp_def AList.update_triv)
  then show ?case using Cons by simp
qed

lemma objectAssign_twice:
  assumes "distinct (map fst (ownProps s))"
  shows "objectAssign [] [s, s] = ownProps s"
  using assms by (simp add: objectAssign_def assignProps_def fold_setProp_fresh fold_setProp_same)

lemma layerSource_override:
  assumes "truthy exported" "distinctKeys exported" "distinctKeys static"
  shows "map_of (layerSource exported static) = map_of (ownProps exported) ++ map_of (ownProps static)"
  using assms
  by (simp add: layerSource_def jsOr_def objectAssign_def map_of_assignProps distinctKeys_def
        map_of_rev_distinct)

lemma layerSource_static_alone:
  assumes "\<not> truthy exported" "distinctKeys static"
  shows "layerSource exported static = ownProps static"
  using assms objectAssign_twice[of static]
  by (simp add: layerSource_def jsOr_def distinctKeys_def)

lemma exampleMergeTitle_frame:
  "k \<noteq> ''title'' \<Longrightarrow> map_of (exampleMergeTitle obj t) k = map_of obj k"
  by (simp add: exampleMergeTitle_def map_of_setProp split: jsval.splits)

section \<open>Properties of the metadata functions\<close>

text \<open>
  C1, as amended. \<^verbatim>\<open>getDefinedMetadata\<close> throws exactly for a module that is not a
  client reference and whose \<^verbatim>\<open>metadata\<close> and \<^verbatim>\<open>generateMetadata\<close> exports are
  both truthy. For a client reference, and for a module where one of the two exports is
  falsy or missing, its promise is fulfilled. Without the restriction the statement is
  false: the example module below is a client reference that exports a metadata object
  and a \<^verbatim>\<open>generateMetadata\<close> function, and the call returns null.
\<close>

theorem getDefinedMetadata_throws_iff:
  "(getDefinedMetadata isClientReference m props = Rejected ExportsBothError) =
     (\<not> isClientReference m \<and> truthyAny (getExport m ''metadata'') \<and>
      truthyAny (getExport m ''generateMetadata'')) \<and>
   (isClientReference m \<or> \<not> truthyAny (getExport m ''metadata'') \<or>
    \<not> truthyAny (getExport m ''generateMetadata'') \<longrightarrow>
      (\<exists>r. getDefinedMetadata isClientReference m props = Fulfilled r)) \<and>
   (map_of m ''metadata'' = None \<or> map_of m ''generateMetadata'' = None \<longrightarrow>
      (\<exists>r. getDefinedMetadata isClientReference m props = Fulfilled r))"
  by (auto simp: getDefinedMetadata_def Let_def getExport_def)

theorem getDefinedMetadata_throws_iff_witness:
  "getDefinedMetadata exampleIsClientReference exampleServerModule JUndefined =
     Rejected ExportsBothError \<and>
   (\<exists>r. getDefinedMetadata exampleIsClientReference exampleStaticModule JUndefined = Fulfilled r)"
proof -
  have a: "\<not> exampleIsClientReference exampleServerModule"
    by (simp add: exampleIsClientReference_def exampleServerModule_def getExport_def)
  have b: "truthyAny (getExport exampleServerModule ''metadata'')"
          "truthyAny (getExport exampleServerModule ''generateMetadata'')"
    by (simp_all add: exampleServerModule_def getExport_def)
  have c: "map_of exampleStaticModule ''generateMetadata'' = None"
    by (simp add: exampleStaticModule_def)
  from getDefinedMetadata_throws_iff[of exampleIsClientReference exampleServerModule JUndefined]
       getDefinedMetadata_throws_iff[of exampleIsClientReference exampleStaticModule JUndefined]
       a b c
  show ?thesis by blast
qed

theorem getDefinedMetadata_both_exports_counterexample:
  "getExport exampleClientModule ''metadata'' = JData (JObj [(''title'', JStr ''Static'')]) \<and>
   getExport exampleClientModule ''generateMetadata'' = JFunc exampleGenerateMetadata \<and>
   getDefinedMetadata exampleIsClientReference exampleClientModule JUndefined = Fulfilled (JData JNull)"
  by (simp add: getDefinedMetadata_def exampleIsClientReference_def exampleClientModule_def
        exampleServerModule_def getExport_def)

text \<open>
  C2. \<^verbatim>\<open>accumulateMetadata\<close> goes through the items in list order, parent first:
  its result is that of the left fold \<open>foldLayers\<close> of the layer step over the items,
  starting from the promise of \<^verbatim>\<open>createDefaultMetadata()\<close>. Whenever the fold over
  the items before an exported function has produced a parent promise, that promise is the
  result of accumulating those earlier items, and it is the argument the function is
  called with.
\<close>

theorem accumulateMetadata_left_fold:
  "accumulateMetadata h items = settle (foldLayers h items) \<and>
   (\<forall>before f static parentPromise.
      foldLayers h before = Inr parentPromise \<longrightarrow>
        accumulateMetadata h before = parentPromise \<and>
        accumulateMetadata h (before @ [(JFunc f, static)]) =
          (case f [ArgPromise parentPromise] of
             Inl e \<Rightarrow> Rejected e
           | Inr layerMetadataPromise \<Rightarrow>
               chainLayer h static parentPromise layerMetadataPromise))"
proof -
  have "accumulateMetadata h before = parentPromise \<and>
        accumulateMetadata h (before @ [(JFunc f, static)]) =
          (case f [ArgPromise parentPromise] of
             Inl e \<Rightarrow> Rejected e
           | Inr layerMetadataPromise \<Rightarrow>
               chainLayer h static parentPromise layerMetadataPromise)"
    if "foldLayers h before = Inr parentPromise" for before f static parentPromise
    using that
    by (simp add: accumulateMetadata_settle foldLayers_snoc layerStep_Inr callExport_def
          settle_def split: sum.splits)
  then show ?thesis
    by (simp add: accumulateMetadata_settle)
qed

theorem accumulateMetadata_left_fold_witness:
  "settle (foldLayers exampleImports exampleItems) = Fulfilled exampleResult \<and>
   accumulateMetadata exampleImports (take 1 exampleItems) = Fulfilled exampleParent \<and>
   accumulateMetadata exampleImports
     (take 1 exampleItems @ [(JFunc exampleResolver, JObj [(''icons'', JStr ''/icon.png'')])]) =
   Fulfilled exampleResult"
proof -
  have run: "accumulateMetadata exampleImports exampleItems = Fulfilled exampleResult"
    by code_simp
  have before: "foldLayers exampleImports (take 1 exampleItems) = Inr (Fulfilled exampleParent)"
    by code_simp
  have call: "(case exampleResolver [ArgPromise (Fulfilled exampleParent)] of
                 Inl e \<Rightarrow> Rejected e
               | Inr layerMetadataPromise \<Rightarrow>
                   chainLayer exampleImports (JObj [(''icons'', JStr ''/icon.png'')])
                     (Fulfilled exampleParent) layerMetadataPromise) = Fulfilled exampleResult"
    by code_simp
  note whole = accumulateMetadata_left_fold[of exampleImports exampleItems, THEN conjunct1]
  note step = accumulateMetadata_left_fold[of exampleImports exampleItems, THEN conjunct2,
      rule_format, OF before, of exampleResolver "JObj [(''icons'', JStr ''/icon.png'')]"]
  show ?thesis
    using whole step by (simp only: run call simp_thms)
qed

text \<open>
  C3. \<^verbatim>\<open>merge\<close> is driven by the keys of the source. Provided
  \<^verbatim>\<open>mergeTitle\<close>, which is handed the whole target, changes no property other than
  \<^verbatim>\<open>title\<close>: every property of the target whose key is not a key of the source is
  the same after \<^verbatim>\<open>merge\<close> as before; a key outside the listed ones leaves the
  target as it is; and a source with no listed key leaves the whole target unchanged.
\<close>

theorem merge_frame:
  assumes mt: "\<forall>obj t k. k \<noteq> ''title'' \<longrightarrow> map_of (mergeTitle h obj t) k = map_of obj k"
  shows "(\<forall>k. k \<notin> set (map fst source) \<longrightarrow>
            map_of (merge h target source ts) k = map_of target k) \<and>
         (\<forall>base tgt key. key \<notin> set knownKeys \<longrightarrow> mergeKey h source base ts tgt key = tgt) \<and>
         (set (map fst source) \<inter> set knownKeys = {} \<longrightarrow> merge h target source ts = target)"
proof (intro conjI allI impI)
  fix k assume "k \<notin> set (map fst source)"
  then show "map_of (merge h target source ts) k = map_of target k"
    using foldl_mergeKey_frame[OF mt] by (simp add: merge_def Let_def)
next
  fix base tgt key assume "key \<notin> set knownKeys"
  then show "mergeKey h source base ts tgt key = tgt" by (rule mergeKey_unknown)
next
  assume "set (map fst source) \<inter> set knownKeys = {}"
  then have "filter (\<lambda>k. k \<in> set knownKeys) (map fst source) = []"
    by (auto simp: filter_empty_conv)
  then show "merge h target source ts = target"
    unfolding merge_def Let_def by (subst foldl_mergeKey_filter) simp
qed

theorem merge_frame_witness:
  "map_of (merge exampleImports exampleTarget exampleSource (templateStringsOf exampleTarget)) ''title''
     = map_of exampleTarget ''title'' \<and>
   merge exampleImports exampleTarget exampleSource (templateStringsOf exampleTarget) =
     [(''title'', JNull), (''description'', JStr ''intro''), (''keywords'', JArr [JStr ''a'']),
      (''icons'', JNull), (''other'', JObj [])] \<and>
   merge exampleImports exampleTarget exampleUnknownSource (templateStringsOf exampleTarget) =
     exampleTarget"
proof -
  have mt: "\<forall>obj t k. k \<noteq> ''title'' \<longrightarrow> map_of (mergeTitle exampleImports obj t) k = map_of obj k"
    by (simp add: exampleImports_def exampleMergeTitle_frame)
  have 1: "''title'' \<notin> set (map fst exampleSource)"
    by (simp add: exampleSource_def)
  have 2: "set (map fst exampleUnknownSource) \<inter> set knownKeys = {}"
    by (simp add: exampleUnknownSource_def knownKeys_def arrayKeys_def directKeys_def)
  have 3: "merge exampleImports exampleTarget exampleSource (templateStringsOf exampleTarget) =
     [(''title'', JNull), (''description'', JStr ''intro''), (''keywords'', JArr [JStr ''a'']),
      (''icons'', JNull), (''other'', JObj [])]"
    by code_simp
  note unchanged = merge_frame[OF mt, of exampleSource exampleTarget
      "templateStringsOf exampleTarget", THEN conjunct1, rule_format, OF 1]
  note skipped = merge_frame[OF mt, of exampleUnknownSource exampleTarget
      "templateStringsOf exampleTarget", THEN conjunct2, THEN conjunct2, rule_format, OF 2]
  show ?thesis
    by (intro conjI) (rule unchanged, rule 3, rule skipped)
qed

text \<open>
  C4. At each layer of \<^verbatim>\<open>accumulateMetadata\<close> the static-files metadata takes
  precedence over the exported metadata. The layer function \<open>mergeLayer\<close> is what
  every layer applies, whether the export of the item is data or a function: the result
  of \<^verbatim>\<open>accumulateMetadata\<close> is that of the fold which starts from
  \<^verbatim>\<open>createDefaultMetadata()\<close> and at each item calls the export with the parent
  promise and, once both have resolved, merges by \<open>mergeLayer\<close> with the static-files
  metadata of that same item. In particular, when the loop has reached an item with
  the accumulated object \<open>resolved\<close> and the export of the item resolves to
  \<open>exported\<close>, the result with that item is \<open>mergeLayer\<close> of the two and of the
  static-files metadata of the item. About \<open>mergeLayer\<close>: when the exported metadata
  is present, the object handed to \<^verbatim>\<open>merge\<close> has the properties of the exported
  metadata overridden by those of the static-files metadata. When the exported metadata is
  null (or otherwise falsy) and the static-files metadata is present, the static-files
  metadata alone is merged. When both are null the accumulated object is returned as it
  is, and an item with two nulls at the end of the list does not change the result of
  \<^verbatim>\<open>accumulateMetadata\<close>.
\<close>

theorem static_files_metadata_take_precedence:
  "(truthy exported \<and> distinctKeys exported \<and> distinctKeys static \<longrightarrow>
      mergeLayer h static resolved exported =
        merge h resolved (layerSource exported static) (templateStringsOf resolved) \<and>
      map_of (layerSource exported static) =
        map_of (ownProps exported) ++ map_of (ownProps static)) \<and>
   (\<not> truthy exported \<and> truthy static \<and> distinctKeys static \<longrightarrow>
      mergeLayer h static resolved exported =
        merge h resolved (ownProps static) (templateStringsOf resolved)) \<and>
   (\<not> truthy exported \<and> \<not> truthy static \<longrightarrow>
      mergeLayer h static resolved exported = resolved) \<and>
   accumulateMetadata h (items @ [(JData exported, static)]) =
     thenP (accumulateMetadata h items)
       (\<lambda>resolved. Fulfilled (mergeLayer h static resolved exported)) \<and>
   accumulateMetadata h (items @ [(JData JNull, JNull)]) = accumulateMetadata h items \<and>
   accumulateMetadata h [] = Fulfilled (createDefaultMetadata h) \<and>
   accumulateMetadata h items =
     settle
       (foldl
          (\<lambda>acc item.
             case acc of
               Inl e \<Rightarrow> Inl e
             | Inr parentPromise \<Rightarrow>
                 (case callExport (fst item) parentPromise of
                    Inl e \<Rightarrow> Inl e
                  | Inr layerMetadataPromise \<Rightarrow>
                      Inr (thenP parentPromise (\<lambda>resolved.
                             thenP layerMetadataPromise (\<lambda>exportedMetadata.
                               Fulfilled
                                 (mergeLayer h (snd item) resolved exportedMetadata))))))
          (Inr (Fulfilled (createDefaultMetadata h))) items) \<and>
   (\<forall>metadataExport.
      foldLayers h items = Inr (Fulfilled resolved) \<and>
      callExport metadataExport (Fulfilled resolved) = Inr (Fulfilled exported) \<longrightarrow>
        accumulateMetadata h items = Fulfilled resolved \<and>
        accumulateMetadata h (items @ [(metadataExport, static)]) =
          Fulfilled (mergeLayer h static resolved exported))"
proof (intro conjI impI allI)
  assume a: "truthy exported \<and> distinctKeys exported \<and> distinctKeys static"
  then show "mergeLayer h static resolved exported =
        merge h resolved (layerSource exported static) (templateStringsOf resolved)"
    by (simp add: mergeLayer_def jsOr_def)
  from a show "map_of (layerSource exported static) =
        map_of (ownProps exported) ++ map_of (ownProps static)"
    by (simp add: layerSource_override)
next
  assume "\<not> truthy exported \<and> truthy static \<and> distinctKeys static"
  then show "mergeLayer h static resolved exported =
        merge h resolved (ownProps static) (templateStringsOf resolved)"
    by (simp add: mergeLayer_def jsOr_def layerSource_static_alone)
next
  assume "\<not> truthy exported \<and> \<not> truthy static"
  then show "mergeLayer h static resolved exported = resolved"
    by (simp add: mergeLayer_def jsOr_def)
next
  show "accumulateMetadata h (items @ [(JData exported, static)]) =
     thenP (accumulateMetadata h items)
       (\<lambda>resolved. Fulfilled (mergeLayer h static resolved exported))"
    by (rule accumulateMetadata_snoc_data)
next
  have "mergeLayer h JNull resolved JNull = resolved" for resolved
    by (simp add: mergeLayer_def jsOr_def)
  then show "accumulateMetadata h (items @ [(JData JNull, JNull)]) = accumulateMetadata h items"
    by (simp add: accumulateMetadata_snoc_data thenP_Fulfilled_id)
next
  show "accumulateMetadata h [] = Fulfilled (createDefaultMetadata h)"
    by (simp add: accumulateMetadata_def)
next
  have step: "layerStep h =
      (\<lambda>acc item.
         case acc of
           Inl e \<Rightarrow> Inl e
         | Inr parentPromise \<Rightarrow>
             (case callExport (fst item) parentPromise of
                Inl e \<Rightarrow> Inl e
              | Inr layerMetadataPromise \<Rightarrow>
                  Inr (thenP parentPromise (\<lambda>resolved.
                         thenP layerMetadataPromise (\<lambda>exportedMetadata.
                           Fulfilled (mergeLayer h (snd item) resolved exportedMetadata))))))"
    by (intro ext) (simp add: layerStep_def chainLayer_def split: sum.splits)
  show "accumulateMetadata h items =
     settle
       (foldl
          (\<lambda>acc item.
             case acc of
               Inl e \<Rightarrow> Inl e
             | Inr parentPromise \<Rightarrow>
                 (case callExport (fst item) parentPromise of
                    Inl e \<Rightarrow> Inl e
                  | Inr layerMetadataPromise \<Rightarrow>
                      Inr (thenP parentPromise (\<lambda>resolved.
                             thenP layerMetadataPromise (\<lambda>exportedMetadata.
                               Fulfilled
                                 (mergeLayer h (snd item) resolved exportedMetadata))))))
          (Inr (Fulfilled (createDefaultMetadata h))) items)"
    unfolding accumulateMetadata_settle foldLayers_def by (simp only: step)
next
  fix metadataExport
  assume run: "foldLayers h items = Inr (Fulfilled resolved) \<and>
      callExport metadataExport (Fulfilled resolved) = Inr (Fulfilled exported)"
  then show "accumulateMetadata h items = Fulfilled resolved"
    by (simp add: accumulateMetadata_settle settle_def)
  from run show "accumulateMetadata h (items @ [(metadataExport, static)]) =
      Fulfilled (mergeLayer h static resolved exported)"
    by (simp add: accumulateMetadata_settle foldLayers_snoc layerStep_Inr chainLayer_def
          settle_def)
qed

theorem static_files_metadata_take_precedence_witness:
  "layerSource exampleExported exampleStatic =
     [(''icons'', JObj [(''icon'', JArr [JStr ''/favicon.ico''])]),
      (''description'', JStr ''intro'')] \<and>
   map_of (layerSource exampleExported exampleStatic) ''icons'' =
     Some (JObj [(''icon'', JArr [JStr ''/favicon.ico''])]) \<and>
   mergeLayer exampleImports exampleStatic exampleTarget exampleExported =
     [(''title'', JNull), (''description'', JStr ''intro''), (''keywords'', JNull),
      (''icons'', JObj [(''icon'', JArr [JStr ''/favicon.ico''])]), (''other'', JObj [])] \<and>
   mergeLayer exampleImports exampleStatic exampleTarget JNull =
     merge exampleImports exampleTarget
       [(''icons'', JObj [(''icon'', JArr [JStr ''/favicon.ico''])])]
       (templateStringsOf exampleTarget) \<and>
   mergeLayer exampleImports JNull exampleTarget JNull = exampleTarget \<and>
   accumulateMetadata exampleImports
     (take 1 exampleItems @ [(JFunc exampleResolver, JObj [(''icons'', JStr ''/icon.png'')])]) =
     Fulfilled
       [(''title'', JObj [(''absolute'', JStr ''Home''), (''template'', JNull)]),
        (''description'', JStr ''intro''), (''keywords'', JArr [JStr ''intro'']),
        (''icons'', JStr ''/icon.png''), (''other'', JObj [])]"
proof -
  have hyp1: "truthy exampleExported \<and> distinctKeys exampleExported \<and> distinctKeys exampleStatic"
    by (simp add: exampleExported_def exampleStatic_def distinctKeys_def)
  have hyp2: "\<not> truthy JNull \<and> truthy exampleStatic \<and> distinctKeys exampleStatic"
    by (simp add: exampleStatic_def distinctKeys_def)
  have hyp3: "\<not> truthy JNull \<and> \<not> truthy JNull"
    by simp
  note prec = static_files_metadata_take_precedence
  note both = prec[of exampleExported exampleStatic exampleImports exampleTarget "[]",
      THEN conjunct1, rule_format, OF hyp1]
  note alone = prec[of JNull exampleStatic exampleImports exampleTarget "[]",
      THEN conjunct2, THEN conjunct1, rule_format, OF hyp2]
  note none = prec[of JNull JNull exampleImports exampleTarget "[]",
      THEN conjunct2, THEN conjunct2, THEN conjunct1, rule_format, OF hyp3]
  have src: "layerSource exampleExported exampleStatic =
     [(''icons'', JObj [(''icon'', JArr [JStr ''/favicon.ico''])]),
      (''description'', JStr ''intro'')]"
    by code_simp
  have look: "(map_of (ownProps exampleExported) ++ map_of (ownProps exampleStatic)) ''icons'' =
     Some (JObj [(''icon'', JArr [JStr ''/favicon.ico''])])"
    by (simp add: exampleExported_def exampleStatic_def)
  have merged: "merge exampleImports exampleTarget (layerSource exampleExported exampleStatic)
        (templateStringsOf exampleTarget) =
     [(''title'', JNull), (''description'', JStr ''intro''), (''keywords'', JNull),
      (''icons'', JObj [(''icon'', JArr [JStr ''/favicon.ico''])]), (''other'', JObj [])]"
    by code_simp
  have props: "ownProps exampleStatic = [(''icons'', JObj [(''icon'', JArr [JStr ''/favicon.ico''])])]"
    by (simp add: exampleStatic_def)
  have c2: "map_of (layerSource exampleExported exampleStatic) ''icons'' =
     Some (JObj [(''icon'', JArr [JStr ''/favicon.ico''])])"
    by (simp only: both[THEN conjunct2] look)
  note c3 = trans[OF both[THEN conjunct1] merged]
  note c4 = alone[unfolded props]
  have reached: "foldLayers exampleImports (take 1 exampleItems) = Inr (Fulfilled exampleParent) \<and>
      callExport (JFunc exampleResolver) (Fulfilled exampleParent) =
        Inr (Fulfilled (JObj [(''keywords'', JStr ''intro'')]))"
    by code_simp
  have layer: "mergeLayer exampleImports (JObj [(''icons'', JStr ''/icon.png'')]) exampleParent
        (JObj [(''keywords'', JStr ''intro'')]) =
     [(''title'', JObj [(''absolute'', JStr ''Home''), (''template'', JNull)]),
      (''description'', JStr ''intro''), (''keywords'', JArr [JStr ''intro'']),
      (''icons'', JStr ''/icon.png''), (''other'', JObj [])]"
    by code_simp
  note function_layer = prec[of "JObj [(''keywords'', JStr ''intro'')]"
      "JObj [(''icons'', JStr ''/icon.png'')]" exampleImports exampleParent "take 1 exampleItems",
      THEN conjunct2, THEN conjunct2, THEN conjunct2, THEN conjunct2, THEN conjunct2,
      THEN conjunct2, THEN conjunct2, rule_format, OF reached, THEN conjunct2]
  note c6 = function_layer[unfolded layer]
  show ?thesis
    by (intro conjI) (rule src, rule c2, rule c3, rule c4, rule none, rule c6)
qed

text \<open>
  C9. For a module that is a client reference \<^verbatim>\<open>getDefinedMetadata\<close> returns null
  and does not throw, whatever the module exports: the test for a client reference comes
  before the test for both exports. The example module is a client reference that exports
  both.
\<close>

theorem client_reference_returns_null:
  "isClientReference m \<Longrightarrow> getDefinedMetadata isClientReference m props = Fulfilled (JData JNull)"
  by (simp add: getDefinedMetadata_def)

theorem client_reference_returns_null_witness:
  "truthyAny (getExport exampleClientModule ''metadata'') \<and>
   truthyAny (getExport exampleClientModule ''generateMetadata'') \<and>
   getDefinedMetadata exampleIsClientReference exampleClientModule JUndefined = Fulfilled (JData JNull)"
proof -
  have "exampleIsClientReference exampleClientModule"
    by (simp add: exampleIsClientReference_def exampleClientModule_def getExport_def)
  with client_reference_returns_null[of exampleIsClientReference exampleClientModule JUndefined]
  show ?thesis
    by (simp add: exampleClientModule_def exampleServerModule_def getExport_def)
qed

section \<open>Properties of the diagnostic formatter\<close>

text \<open>
  C5. When neither \<^verbatim>\<open>getFormattedLinkDiagnosticMessageText\<close> nor
  \<^verbatim>\<open>getFormattedLayoutAndPageDiagnosticMessageText\<close> produces a message for a
  diagnostic, \<^verbatim>\<open>getFormattedDiagnostic\<close> falls back to the default formatting: the
  reason is \<^verbatim>\<open>ts.flattenDiagnosticMessageText\<close> of the message text of the
  diagnostic, and the function returns the message assembled from that reason without
  raising an error.
\<close>

theorem default_formatting_fallback:
  assumes "getFormattedLinkDiagnosticMessageText deps diagnostic = None"
    and "getFormattedLayoutAndPageDiagnosticMessageText deps baseDir diagnostic = None"
  shows "diagnosticReason deps ts baseDir distDir diagnostic isAppDirEnabled =
           flattenDiagnosticMessageText ts (messageText diagnostic) [CHR 0x0A] \<and>
         getFormattedDiagnostic deps ts baseDir distDir diagnostic isAppDirEnabled =
           Fulfilled
             (formatMessage deps baseDir distDir diagnostic isAppDirEnabled
                (flattenDiagnosticMessageText ts (messageText diagnostic) [CHR 0x0A]))"
  using assms
  by (simp add: getFormattedDiagnostic_def diagnosticReason_def orString_def orDefault_def)

theorem default_formatting_fallback_witness:
  \<open>getFormattedDiagnostic exampleDiagnosticImports exampleTypeScript ''/app'' ''.next''
     (exampleDiagnostic (Some exampleTypesFile)) (Some True) =
   Fulfilled ''Type error: Cannot find name \'x\'.\<newline>''\<close>
proof -
  have link: "getFormattedLinkDiagnosticMessageText exampleDiagnosticImports
      (exampleDiagnostic (Some exampleTypesFile)) = None"
    by code_simp
  have layout: "getFormattedLayoutAndPageDiagnosticMessageText exampleDiagnosticImports ''/app''
      (exampleDiagnostic (Some exampleTypesFile)) = None"
    by code_simp
  have format: \<open>formatMessage exampleDiagnosticImports ''/app'' ''.next''
      (exampleDiagnostic (Some exampleTypesFile)) (Some True)
      (flattenDiagnosticMessageText exampleTypeScript
         (messageText (exampleDiagnostic (Some exampleTypesFile))) [CHR 0x0A]) =
      ''Type error: Cannot find name \'x\'.\<newline>''\<close>
    by code_simp
  from default_formatting_fallback[OF link layout, of exampleTypeScript "''.next''" "Some True"]
  show ?thesis by (simp only: format)
qed

text \<open>
  C6. The two patterns are meant to recognise the compiler message
  \<^verbatim>\<open>Type '"..."' is not assignable to type 'Route<string> | URL'.\<close> and its variant
  with the two types swapped. In the code the bar of each pattern is an alternation, so a
  message matches as soon as it holds the text of one side of the bar. The diagnostic
  below has code 2322 and the message
  \<^verbatim>\<open>Type 'number' is not assignable to type 'string | URL'.\<close>, in which no route
  type occurs. The first pattern matches it through its second alternative, with the
  group undefined, and the function returns the text about a route that does not exist,
  built around \<^verbatim>\<open>chalk.bold(undefined)\<close>, where no rewriting was to happen. The
  message about the route \<^verbatim>\<open>/blog\<close> is rewritten as intended.
\<close>

theorem link_pattern_matches_other_message:
  \<open>code exampleUnionDiagnostic = 2322 \<and>
   messageText exampleUnionDiagnostic =
     TextString ''Type \'number\' is not assignable to type \'string | URL\'.'' \<and>
   \<not> sublist ''Route<string>'' ''Type \'number\' is not assignable to type \'string | URL\'.'' \<and>
   regexMatch linkPattern1 ''Type \'number\' is not assignable to type \'string | URL\'.'' =
     Some [Some '' URL\'.'', None] \<and>
   getFormattedLinkDiagnosticMessageText deps exampleUnionDiagnostic =
     Some (''"'' @ chalk_bold deps None @
           ''" is not an existing route. If it is intentional, please type it explicitly with `as Route`.'') \<and>
   getFormattedLinkDiagnosticMessageText deps exampleRouteDiagnostic =
     Some (''"'' @ chalk_bold deps (Some ''/blog'') @
           ''" is not an existing route. If it is intentional, please type it explicitly with `as Route`.'')\<close>
proof -
  have other: \<open>regexMatch linkPattern1 ''Type \'number\' is not assignable to type \'string | URL\'.'' =
     Some [Some '' URL\'.'', None]\<close>
    by code_simp
  have absent: \<open>\<not> sublist ''Route<string>'' ''Type \'number\' is not assignable to type \'string | URL\'.''\<close>
    by code_simp
  have route: \<open>regexMatch linkPattern1
       ''Type \'"/blog"\' is not assignable to type \'Route<string> | URL\'.'' =
     Some [Some ''Type \'"/blog"\' is not assignable to type \'Route<string> '', Some ''/blog'']\<close>
    by code_simp
  show ?thesis
    by (simp add: getFormattedLinkDiagnosticMessageText_def exampleUnionDiagnostic_def
          exampleRouteDiagnostic_def other absent route matchAt_def)
qed

text \<open>
  C7. For a diagnostic that has a source file and is not a layout or page error from the
  types directory, the string that \<^verbatim>\<open>getFormattedDiagnostic\<close> returns begins with
  the location, the shown file name, the line and the character, each of the two one more
  than the compiler's number counted from 0, and ends with the code frame of the source at
  that line and column. For a layout or page error and for a diagnostic without a file the
  string is the heading and the reason alone.
\<close>

theorem location_prefix_and_code_frame:
  "(diagnosticFile diagnostic = Some f \<and>
    \<not> isLayoutOrPageError deps baseDir distDir diagnostic isAppDirEnabled \<longrightarrow>
      getFormattedDiagnostic deps ts baseDir distDir diagnostic isAppDirEnabled =
        Fulfilled
          (chalk_cyan deps (shownFileName deps baseDir f) @ '':'' @
           chalk_yellow deps
             (decimal (fst (getLineAndCharacterOfPosition f (start diagnostic)) + 1)) @ '':'' @
           chalk_yellow deps
             (decimal (snd (getLineAndCharacterOfPosition f (start diagnostic)) + 1)) @
           [CHR 0x0A] @
           categoryHeading deps (category diagnostic) @
           diagnosticReason deps ts baseDir distDir diagnostic isAppDirEnabled @ [CHR 0x0A] @
           [CHR 0x0A] @
           codeFrameColumns deps (getFullText f)
             (fst (getLineAndCharacterOfPosition f (start diagnostic)) + 1)
             (snd (getLineAndCharacterOfPosition f (start diagnostic)) + 1))) \<and>
   (diagnosticFile diagnostic = None \<or>
    isLayoutOrPageError deps baseDir distDir diagnostic isAppDirEnabled \<longrightarrow>
      getFormattedDiagnostic deps ts baseDir distDir diagnostic isAppDirEnabled =
        Fulfilled
          (categoryHeading deps (category diagnostic) @
           diagnosticReason deps ts baseDir distDir diagnostic isAppDirEnabled @ [CHR 0x0A]))"
  by (auto simp: getFormattedDiagnostic_def formatMessage_def Let_def split: option.splits)

theorem location_prefix_and_code_frame_witness:
  \<open>getFormattedDiagnostic exampleDiagnosticImports exampleTypeScript ''/app'' ''.next''
     (exampleDiagnostic (Some exampleSourceFile)) (Some True) =
     Fulfilled ''./pages/index.tsx:1:19\<newline>Type error: Cannot find name \'x\'.\<newline>\<newline>> 1 | const n: number = x'' \<and>
   getFormattedDiagnostic exampleDiagnosticImports exampleTypeScript ''/app'' ''.next''
     examplePageDiagnostic (Some True) =
     Fulfilled ''Type error: Page "app/page.tsx" does not match the required types of a Next.js Page.\<newline>  Invalid configuration:\<newline>    The exported Page component isn\'t correctly typed.\<newline>'' \<and>
   getFormattedDiagnostic exampleDiagnosticImports exampleTypeScript ''/app'' ''.next''
     (exampleDiagnostic None) (Some True) =
     Fulfilled ''Type error: Cannot find name \'x\'.\<newline>''\<close>
proof -
  let ?run = "getFormattedDiagnostic exampleDiagnosticImports exampleTypeScript ''/app'' ''.next''"
  have hasFile: "diagnosticFile (exampleDiagnostic (Some exampleSourceFile)) = Some exampleSourceFile"
    by (simp add: exampleDiagnostic_def)
  have elsewhere: "\<not> isLayoutOrPageError exampleDiagnosticImports ''/app'' ''.next''
          (exampleDiagnostic (Some exampleSourceFile)) (Some True)"
    by code_simp
  note withFile = conjI[OF hasFile elsewhere]
  have "isLayoutOrPageError exampleDiagnosticImports ''/app'' ''.next'' examplePageDiagnostic
      (Some True)"
    by code_simp
  then have types: "diagnosticFile examplePageDiagnostic = None \<or>
      isLayoutOrPageError exampleDiagnosticImports ''/app'' ''.next'' examplePageDiagnostic (Some True)"
    by (rule disjI2)
  have "diagnosticFile (exampleDiagnostic None) = None"
    by (simp add: exampleDiagnostic_def)
  then have noFile: "diagnosticFile (exampleDiagnostic None) = None \<or>
      isLayoutOrPageError exampleDiagnosticImports ''/app'' ''.next'' (exampleDiagnostic None) (Some True)"
    by (rule disjI1)
  note shape = location_prefix_and_code_frame[of _ _ exampleDiagnosticImports "''/app''" "''.next''"
      "Some True" exampleTypeScript]
  note a = shape[of "exampleDiagnostic (Some exampleSourceFile)" exampleSourceFile,
      THEN conjunct1, rule_format, OF withFile]
  note b = shape[of examplePageDiagnostic exampleSourceFile, THEN conjunct2, rule_format, OF types]
  note c = shape[of "exampleDiagnostic None" exampleSourceFile, THEN conjunct2, rule_format, OF noFile]
  have a': \<open>?run (exampleDiagnostic (Some exampleSourceFile)) (Some True) =
     Fulfilled ''./pages/index.tsx:1:19\<newline>Type error: Cannot find name \'x\'.\<newline>\<newline>> 1 | const n: number = x''\<close>
    unfolding a by code_simp
  have b': \<open>?run examplePageDiagnostic (Some True) =
     Fulfilled ''Type error: Page "app/page.tsx" does not match the required types of a Next.js Page.\<newline>  Invalid configuration:\<newline>    The exported Page component isn\'t correctly typed.\<newline>''\<close>
    unfolding b by code_simp
  have c': \<open>?run (exampleDiagnostic None) (Some True) =
     Fulfilled ''Type error: Cannot find name \'x\'.\<newline>''\<close>
    unfolding c by code_simp
  show ?thesis
    by (intro conjI) (rule a', rule b', rule c')
qed

section \<open>Properties of the initial router state\<close>

text \<open>
  C8. The factory is a function of its parameters alone: in the object it returns,
  \<^verbatim>\<open>tree\<close> is \<^verbatim>\<open>initialTree\<close>, \<^verbatim>\<open>cache.subTreeData\<close> is \<^verbatim>\<open>children\<close>,
  \<^verbatim>\<open>cache.data\<close> is null, \<^verbatim>\<open>prefetchCache\<close> is an empty map, and
  \<^verbatim>\<open>canonicalUrl\<close> is \<^verbatim>\<open>createHrefFromUrl(location)\<close> when the location is not
  null and \<^verbatim>\<open>initialCanonicalUrl\<close> when it is null.
\<close>

theorem createInitialRouterState_fields:
  "tree (createInitialRouterState env p) = initialTree p \<and>
   subTreeData (cache (createInitialRouterState env p)) = children p \<and>
   data (cache (createInitialRouterState env p)) = None \<and>
   prefetchCache (createInitialRouterState env p) = Map.empty \<and>
   (\<forall>l. location p = Some l \<longrightarrow>
      canonicalUrl (createInitialRouterState env p) = createHrefFromUrl env l) \<and>
   (location p = None \<longrightarrow>
      canonicalUrl (createInitialRouterState env p) = initialCanonicalUrl p)"
  by (simp add: createInitialRouterState_def)

theorem createInitialRouterState_fields_witness:
  "canonicalUrl (exampleRouterState False (Some ''https://example.com/docs?q=1'')) = ''/docs?q=1'' \<and>
   canonicalUrl (exampleRouterState True None) = ''/initial'' \<and>
   tree (exampleRouterState True None) = ''tree'' \<and>
   subTreeData (cache (exampleRouterState True None)) = ''children'' \<and>
   data (cache (exampleRouterState True None)) = None \<and>
   prefetchCache (exampleRouterState True None) = Map.empty"
proof -
  let ?browser = "exampleParameters False (Some ''https://example.com/docs?q=1'')"
  let ?server = "exampleParameters True None"
  have browser:
    "\<forall>l. location ?browser = Some l \<longrightarrow>
       canonicalUrl (exampleRouterState False (Some ''https://example.com/docs?q=1'')) =
       createHrefFromUrl exampleRouterImports l"
    unfolding exampleRouterState_def
    using createInitialRouterState_fields[of exampleRouterImports ?browser] by blast
  have server:
    "tree (exampleRouterState True None) = initialTree ?server \<and>
     subTreeData (cache (exampleRouterState True None)) = children ?server \<and>
     data (cache (exampleRouterState True None)) = None \<and>
     prefetchCache (exampleRouterState True None) = Map.empty \<and>
     (location ?server = None \<longrightarrow>
        canonicalUrl (exampleRouterState True None) = initialCanonicalUrl ?server)"
    unfolding exampleRouterState_def
    using createInitialRouterState_fields[of exampleRouterImports ?server] by blast
  show ?thesis
    using browser server
    by (simp add: exampleRouterImports_def exampleParameters_def exampleHref_def)
qed

text \<open>
  C10. Every state the factory produces is an initial state: the cache is
  \<^verbatim>\<open>CacheStates.READY\<close>, no push and no MPA navigation is pending, no focus or scroll
  is to be applied, and the parallel routes of the cache are a fresh empty map on the
  server, whatever \<^verbatim>\<open>initialParallelRoutes\<close> is, and \<^verbatim>\<open>initialParallelRoutes\<close>
  itself in the browser.
\<close>

theorem createInitialRouterState_initial:
  "status (cache (createInitialRouterState env p)) = CacheStates_READY env \<and>
   \<not> pendingPush (pushRef (createInitialRouterState env p)) \<and>
   \<not> mpaNavigation (pushRef (createInitialRouterState env p)) \<and>
   \<not> applyFocus (focusAndScrollRef (createInitialRouterState env p)) \<and>
   (isServer p \<longrightarrow> parallelRoutes (cache (createInitialRouterState env p)) = Map.empty) \<and>
   (\<not> isServer p \<longrightarrow>
      parallelRoutes (cache (createInitialRouterState env p)) = initialParallelRoutes p)"
  by (simp add: createInitialRouterState_def)

theorem createInitialRouterState_initial_witness:
  "status (cache (exampleRouterState True None)) = ''READY'' \<and>
   \<not> pendingPush (pushRef (exampleRouterState True None)) \<and>
   \<not> mpaNavigation (pushRef (exampleRouterState True None)) \<and>
   \<not> applyFocus (focusAndScrollRef (exampleRouterState True None)) \<and>
   parallelRoutes (cache (exampleRouterState True None)) ''children'' = None \<and>
   parallelRoutes (cache (exampleRouterState False None)) ''children'' = Some 1"
proof -
  let ?server = "exampleParameters True None"
  let ?browser = "exampleParameters False None"
  have server:
    "status (cache (exampleRouterState True None)) = CacheStates_READY exampleRouterImports \<and>
     \<not> pendingPush (pushRef (exampleRouterState True None)) \<and>
     \<not> mpaNavigation (pushRef (exampleRouterState True None)) \<and>
     \<not> applyFocus (focusAndScrollRef (exampleRouterState True None)) \<and>
     (isServer ?server \<longrightarrow> parallelRoutes (cache (exampleRouterState True None)) = Map.empty)"
    unfolding exampleRouterState_def
    using createInitialRouterState_initial[of exampleRouterImports ?server] by blast
  have browser:
    "\<not> isServer ?browser \<longrightarrow>
       parallelRoutes (cache (exampleRouterState False None)) = initialParallelRoutes ?browser"
    unfolding exampleRouterState_def
    using createInitialRouterState_initial[of exampleRouterImports ?browser] by blast
  show ?thesis
    using server browser
    by (simp add: exampleRouterImports_def exampleParameters_def)
qed

end
